theory Spec2Isabelle
  imports Complex_Main "HOL-Library.Word"
begin

section \<open>JavaScript values\<close>

text \<open>
  The converter works on untyped JSON data. A value is a JSON value or \<open>undefined\<close>
  (a missing property). An object is its list of own properties in enumeration order.
  A number is finite, an infinity (\<open>Infty True\<close> is \<open>+Infinity\<close>) or \<open>NaN\<close>. A
  finite number is kept as a rational. The numbers of a parsed document are IEEE
  doubles, and the conversions from strings round to the nearest double. The score and
  the keyword weights, which the source rounds to two, four or six decimals, are kept as
  these decimals; each stands for the double nearest to it, and \<open>String\<close> rounds to
  that double before it prints. A string is a list of code units below 256.
\<close>

datatype number = Fin rat | Infty bool | NaN

datatype jsval =
    JUndefined
  | JNull
  | JBool bool
  | JNum number
  | JStr string
  | JArr "jsval list"
  | JObj "(string \<times> jsval) list"

type_synonym jsobj = "(string \<times> jsval) list"

datatype error = TypeError

definition bindE :: "error + 'a \<Rightarrow> ('a \<Rightarrow> error + 'b) \<Rightarrow> error + 'b" where
  "bindE m f = (case m of Inl e \<Rightarrow> Inl e | Inr x \<Rightarrow> f x)"

fun mapE :: "('a \<Rightarrow> error + 'b) \<Rightarrow> 'a list \<Rightarrow> error + 'b list" where
  "mapE f [] = Inr []"
| "mapE f (x # xs) = bindE (f x) (\<lambda>y. bindE (mapE f xs) (\<lambda>ys. Inr (y # ys)))"

text \<open>Truthiness, as \<open>if (v)\<close>, \<open>!v\<close>, \<open>a || b\<close> and \<open>a && b\<close> use it.\<close>

fun truthy :: "jsval \<Rightarrow> bool" where
  "truthy JUndefined = False"
| "truthy JNull = False"
| "truthy (JBool b) = b"
| "truthy (JNum n) = (n \<noteq> Fin 0 \<and> n \<noteq> NaN)"
| "truthy (JStr s) = (s \<noteq> [])"
| "truthy (JArr xs) = True"
| "truthy (JObj kvs) = True"

definition js_or :: "jsval \<Rightarrow> jsval \<Rightarrow> jsval" where
  "js_or a b = (if truthy a then a else b)"

text \<open>\<open>o[k]\<close> on an object: the own property, or \<open>undefined\<close>.\<close>

definition lookup :: "jsobj \<Rightarrow> string \<Rightarrow> jsval" where
  "lookup kvs k = (case map_of kvs k of None \<Rightarrow> JUndefined | Some v \<Rightarrow> v)"

text \<open>
  \<open>v.k\<close> on any value: reading a property of \<open>undefined\<close> or \<open>null\<close> throws, a
  string or an array has a \<open>length\<close>, any other primitive has no property of the names
  the converter reads.
\<close>

fun getprop :: "jsval \<Rightarrow> string \<Rightarrow> error + jsval" where
  "getprop JUndefined k = Inl TypeError"
| "getprop JNull k = Inl TypeError"
| "getprop (JObj kvs) k = Inr (lookup kvs k)"
| "getprop (JStr s) k = Inr (if k = ''length'' then JNum (Fin (of_nat (length s))) else JUndefined)"
| "getprop (JArr xs) k = Inr (if k = ''length'' then JNum (Fin (of_nat (length xs))) else JUndefined)"
| "getprop v k = Inr JUndefined"

definition isArray :: "jsval \<Rightarrow> bool" where
  "isArray v = (case v of JArr xs \<Rightarrow> True | _ \<Rightarrow> False)"

definition isString :: "jsval \<Rightarrow> bool" where
  "isString v = (case v of JStr s \<Rightarrow> True | _ \<Rightarrow> False)"

section \<open>Strings\<close>

definition code :: "char \<Rightarrow> nat" where
  "code c = of_char c"

definition is_digit :: "char \<Rightarrow> bool" where
  "is_digit c = (48 \<le> code c \<and> code c \<le> 57)"

definition digits_val :: "string \<Rightarrow> int" where
  "digits_val ds = foldl (\<lambda>a c. 10 * a + int (code c - 48)) 0 ds"

text \<open>
  A property name that is an array index (a canonical numeric string below
  \<open>2^32 - 1\<close>): objects enumerate such keys first, in ascending numeric order, and the
  other keys after them in insertion order.
\<close>

definition is_index :: "string \<Rightarrow> bool" where
  "is_index k =
     (k \<noteq> [] \<and> list_all is_digit k \<and> (k = ''0'' \<or> hd k \<noteq> CHR ''0'')
      \<and> length k \<le> 10 \<and> digits_val k < 4294967295)"

text \<open>
  \<open>o[k] = v\<close>: an existing property keeps its place; a new index key goes to its
  numeric place among the index keys, any other new key to the end.
\<close>

fun assign :: "(string \<times> 'a) list \<Rightarrow> string \<Rightarrow> 'a \<Rightarrow> (string \<times> 'a) list" where
  "assign [] k v = [(k, v)]"
| "assign ((k', v') # kvs) k v =
     (if k' = k then (k, v) # kvs
      else if is_index k \<and> k \<notin> fst ` set kvs \<and> (\<not> is_index k' \<or> digits_val k < digits_val k')
      then (k, v) # (k', v') # kvs
      else (k', v') # assign kvs k v)"

definition is_upper :: "char \<Rightarrow> bool" where
  "is_upper c = (65 \<le> code c \<and> code c \<le> 90)"

definition is_lower :: "char \<Rightarrow> bool" where
  "is_lower c = (97 \<le> code c \<and> code c \<le> 122)"

text \<open>\<open>\w\<close> is \<open>[A-Za-z0-9_]\<close>.\<close>

definition is_word :: "char \<Rightarrow> bool" where
  "is_word c = (is_digit c \<or> is_upper c \<or> is_lower c \<or> code c = 95)"

text \<open>\<open>\s\<close>, and what \<open>trim\<close> strips: tab, LF, VT, FF, CR, space and the no-break space.\<close>

definition is_space :: "char \<Rightarrow> bool" where
  "is_space c = (code c \<in> {9, 10, 11, 12, 13, 32, 160})"

definition lower_char :: "char \<Rightarrow> char" where
  "lower_char c =
     (if is_upper c \<or> (192 \<le> code c \<and> code c \<le> 222 \<and> code c \<noteq> 215)
      then char_of (code c + 32) else c)"

definition upper_char :: "char \<Rightarrow> char" where
  "upper_char c =
     (if is_lower c \<or> (224 \<le> code c \<and> code c \<le> 254 \<and> code c \<noteq> 247)
      then char_of (code c - 32) else c)"

definition toLowerCase :: "string \<Rightarrow> string" where
  "toLowerCase s = map lower_char s"

definition trim :: "string \<Rightarrow> string" where
  "trim s = rev (dropWhile is_space (rev (dropWhile is_space s)))"

definition substring0 :: "nat \<Rightarrow> string \<Rightarrow> string" where
  "substring0 n s = take n s"

fun starts_with :: "string \<Rightarrow> string \<Rightarrow> bool" where
  "starts_with s [] = True"
| "starts_with [] (k # ks) = False"
| "starts_with (c # cs) (k # ks) = (c = k \<and> starts_with cs ks)"

text \<open>\<open>s.includes(sub)\<close>.\<close>

fun str_includes :: "string \<Rightarrow> string \<Rightarrow> bool" where
  "str_includes [] sub = (sub = [])"
| "str_includes (c # cs) sub = (starts_with (c # cs) sub \<or> str_includes cs sub)"

text \<open>\<open>xs.join(sep)\<close> on strings.\<close>

fun join :: "string \<Rightarrow> string list \<Rightarrow> string" where
  "join sep [] = []"
| "join sep [x] = x"
| "join sep (x # y # ys) = x @ sep @ join sep (y # ys)"

section \<open>Conversions\<close>

fun nat_digits :: "nat \<Rightarrow> string" where
  "nat_digits n =
     (if n < 10 then [char_of (48 + n)]
      else nat_digits (n div 10) @ [char_of (48 + n mod 10)])"

declare nat_digits.simps [simp del]

text \<open>
  Rounding to a double. \<open>ipow b e\<close> is \<open>b\<close> to the power \<open>e\<close>, \<open>scaled r b e\<close> the
  numerator and the denominator of \<open>r / b^e\<close>, \<open>ilog b r\<close> the integer part of the
  logarithm of a positive \<open>r\<close> to the base \<open>b\<close>.
\<close>

function ipow :: "int \<Rightarrow> int \<Rightarrow> int" where
  "ipow b e =
     (if e \<le> 0 then 1
      else let h = ipow b (e div 2) in if even e then h * h else h * h * b)"
  by pat_completeness auto
termination
  by (relation "measure (\<lambda>(b, e). nat e)") auto

definition pow :: "int \<Rightarrow> int \<Rightarrow> rat" where
  "pow b e = (if 0 \<le> e then of_int (ipow b e) else 1 / of_int (ipow b (- e)))"

definition scaled :: "rat \<Rightarrow> int \<Rightarrow> int \<Rightarrow> int \<times> int" where
  "scaled r b e =
     (let (p, q) = quotient_of r
      in if 0 \<le> e then (p, q * ipow b e) else (p * ipow b (- e), q))"

function digit_count :: "int \<Rightarrow> int \<Rightarrow> int" where
  "digit_count b n = (if n \<le> 0 \<or> b \<le> 1 then 0 else 1 + digit_count b (n div b))"
  by pat_completeness auto
termination
  by (relation "measure (\<lambda>(b, n). nat n)") (auto simp: int_div_less_self)

definition ilog :: "int \<Rightarrow> rat \<Rightarrow> int" where
  "ilog b r =
     (let e = digit_count b (fst (quotient_of r)) - digit_count b (snd (quotient_of r));
          (n, d) = scaled r b e
      in if d \<le> n then e else e - 1)"

text \<open>The integer nearest to a fraction, a tie going to the even one.\<close>

definition round_even :: "int \<times> int \<Rightarrow> int" where
  "round_even f =
     (let (n, d) = f; q = n div d; t = 2 * (n mod d)
      in if t < d then q else if d < t then q + 1 else if even q then q else q + 1)"

text \<open>
  The double nearest to a rational: 53 significant bits, the exponent of the least bit
  not below \<open>-1074\<close>, and an infinity from \<open>2^1024\<close> on.
\<close>

definition to_double :: "rat \<Rightarrow> number" where
  "to_double r =
     (if r = 0 then Fin 0
      else
        let e = max (ilog 2 \<bar>r\<bar>) (- 1022);
            m = round_even (scaled \<bar>r\<bar> 2 (e - 52))
        in if 1023 < e \<or> (e = 1023 \<and> 9007199254740992 \<le> m) then Infty (0 < r)
           else Fin (of_int (if 0 < r then m else - m) * pow 2 (e - 52)))"

text \<open>The decimal digits of a natural number.\<close>

function int_digits :: "int \<Rightarrow> string" where
  "int_digits n =
     (if n < 10 then [char_of (48 + n)]
      else int_digits (n div 10) @ [char_of (48 + n mod 10)])"
  by pat_completeness auto
termination
  by (relation "measure nat") auto

declare int_digits.simps [simp del]

text \<open>
  \<open>String(x)\<close> of a number (Number::toString of ECMAScript): the shortest decimal
  \<open>s * 10^(n - k)\<close> with \<open>k\<close> digits that rounds to the double, the nearest to it if
  there are several; 17 digits always do. It is printed plainly when \<open>-6 < n \<le> 21\<close>
  and with an exponent otherwise.
\<close>

definition shortest :: "rat \<Rightarrow> int \<Rightarrow> int \<Rightarrow> int option" where
  "shortest a n k =
     (let scale = pow 10 (n - k);
          lo = (case scaled a 10 (n - k) of (p, q) \<Rightarrow> p div q);
          ok_lo = (to_double (of_int lo * scale) = Fin a);
          ok_hi = (to_double (of_int (lo + 1) * scale) = Fin a);
          below = a - of_int lo * scale;
          above = of_int (lo + 1) * scale - a
      in if ok_lo \<and> (\<not> ok_hi \<or> below < above \<or> (below = above \<and> even lo)) then Some lo
         else if ok_hi then Some (lo + 1)
         else None)"

fun shortest_from :: "rat \<Rightarrow> int \<Rightarrow> int list \<Rightarrow> string \<times> int" where
  "shortest_from a n [] = (int_digits (case scaled a 10 (n - 17) of (p, q) \<Rightarrow> p div q), n)"
| "shortest_from a n (k # ks) =
     (case shortest a n k of
        None \<Rightarrow> shortest_from a n ks
      | Some s \<Rightarrow> if s = ipow 10 k then (''1'', n + 1) else (int_digits s, n))"

definition format_decimal :: "string \<Rightarrow> int \<Rightarrow> string" where
  "format_decimal ds n =
     (let k = int (length ds)
      in if k \<le> n \<and> n \<le> 21 then ds @ replicate (nat (n - k)) (CHR ''0'')
         else if 0 < n \<and> n \<le> 21 then take (nat n) ds @ ''.'' @ drop (nat n) ds
         else if - 6 < n \<and> n \<le> 0 then ''0.'' @ replicate (nat (- n)) (CHR ''0'') @ ds
         else (if k = 1 then ds else take 1 ds @ ''.'' @ drop 1 ds)
              @ ''e'' @ (if 0 < n - 1 then ''+'' else ''-'') @ int_digits \<bar>n - 1\<bar>)"

definition num_to_string :: "number \<Rightarrow> string" where
  "num_to_string x =
     (case (case x of Fin r \<Rightarrow> to_double r | _ \<Rightarrow> x) of
        NaN \<Rightarrow> ''NaN''
      | Infty pos \<Rightarrow> (if pos then ''Infinity'' else ''-Infinity'')
      | Fin d \<Rightarrow>
          if d = 0 then ''0''
          else (if d < 0 then ''-'' else [])
               @ (case shortest_from \<bar>d\<bar> (ilog 10 \<bar>d\<bar> + 1)
                         [1, 2, 3, 4, 5, 6, 7, 8, 9, 10, 11, 12, 13, 14, 15, 16, 17]
                  of (ds, n) \<Rightarrow> format_decimal ds n))"

text \<open>\<open>String(v)\<close>, and what a template literal or \<open>join\<close> does to a value.\<close>

fun toString :: "jsval \<Rightarrow> string" where
  "toString JUndefined = ''undefined''"
| "toString JNull = ''null''"
| "toString (JBool b) = (if b then ''true'' else ''false'')"
| "toString (JNum n) = num_to_string n"
| "toString (JStr s) = s"
| "toString (JArr xs) =
     join '',''
       (map (\<lambda>x. if x = JUndefined \<or> x = JNull then [] else toString x) xs)"
| "toString (JObj kvs) = ''[object Object]''"

text \<open>\<open>xs.join(sep)\<close> on values: \<open>null\<close> and \<open>undefined\<close> give the empty string.\<close>

definition join_vals :: "string \<Rightarrow> jsval list \<Rightarrow> string" where
  "join_vals sep xs =
     join sep (map (\<lambda>x. if x = JUndefined \<or> x = JNull then [] else toString x) xs)"

text \<open>
  The longest prefix of a string that is a decimal literal (sign, digits, fraction,
  exponent, or \<open>Infinity\<close>), with its value, rounded to a double, and the rest of
  the string.
\<close>

definition parse_exponent :: "string \<Rightarrow> int \<times> string" where
  "parse_exponent s =
     (case s of
        [] \<Rightarrow> (0, s)
      | e # s1 \<Rightarrow>
          if e = CHR ''e'' \<or> e = CHR ''E'' then
            (let neg = (s1 \<noteq> [] \<and> hd s1 = CHR ''-'');
                 s2 = (if s1 \<noteq> [] \<and> (hd s1 = CHR ''-'' \<or> hd s1 = CHR ''+'') then tl s1 else s1);
                 ds = takeWhile is_digit s2
             in if ds = [] then (0, s)
                else ((if neg then - digits_val ds else digits_val ds),
                      dropWhile is_digit s2))
          else (0, s))"

definition parse_decimal :: "string \<Rightarrow> (number \<times> string) option" where
  "parse_decimal s =
     (let neg = (s \<noteq> [] \<and> hd s = CHR ''-'');
          s1 = (if s \<noteq> [] \<and> (hd s = CHR ''-'' \<or> hd s = CHR ''+'') then tl s else s)
      in if starts_with s1 ''Infinity'' then Some (Infty (\<not> neg), drop 8 s1)
         else
           let ip = takeWhile is_digit s1;
               r1 = dropWhile is_digit s1;
               dot = (r1 \<noteq> [] \<and> hd r1 = CHR ''.'');
               fp = (if dot then takeWhile is_digit (tl r1) else []);
               r2 = (if dot \<and> (ip \<noteq> [] \<or> fp \<noteq> []) then dropWhile is_digit (tl r1) else r1)
           in if ip = [] \<and> fp = [] then None
              else
                let (ex, r3) = parse_exponent r2;
                    m = of_int (digits_val ip) + of_int (digits_val fp) / 10 ^ length fp;
                    v = m * pow 10 ex
                in Some (to_double (if neg then - v else v), r3))"

definition radix_digit :: "nat \<Rightarrow> char \<Rightarrow> nat option" where
  "radix_digit radix c =
     (let d = (if is_digit c then code c - 48
               else if 97 \<le> code c \<and> code c \<le> 122 then code c - 87
               else if 65 \<le> code c \<and> code c \<le> 90 then code c - 55
               else 36)
      in if d < radix then Some d else None)"

definition radix_val :: "nat \<Rightarrow> string \<Rightarrow> int" where
  "radix_val radix ds = foldl (\<lambda>a c. int radix * a + int (the (radix_digit radix c))) 0 ds"

definition radix_literal :: "string \<Rightarrow> number" where
  "radix_literal t =
     (let p = toLowerCase (take 2 t);
          radix = (if p = ''0x'' then 16 else if p = ''0o'' then 8 else if p = ''0b'' then 2 else 0);
          ds = drop 2 t
      in if radix \<noteq> 0 \<and> ds \<noteq> [] \<and> list_all (\<lambda>c. radix_digit radix c \<noteq> None) ds
         then to_double (of_int (radix_val radix ds)) else NaN)"

text \<open>\<open>Number(v)\<close>.\<close>

definition str_to_number :: "string \<Rightarrow> number" where
  "str_to_number s =
     (let t = trim s
      in if t = [] then Fin 0
         else case parse_decimal t of
                Some (v, []) \<Rightarrow> v
              | _ \<Rightarrow> radix_literal t)"

definition toNumber :: "jsval \<Rightarrow> number" where
  "toNumber v =
     (case v of
        JUndefined \<Rightarrow> NaN
      | JNull \<Rightarrow> Fin 0
      | JBool b \<Rightarrow> Fin (if b then 1 else 0)
      | JNum n \<Rightarrow> n
      | JStr s \<Rightarrow> str_to_number s
      | JArr xs \<Rightarrow> str_to_number (toString v)
      | JObj kvs \<Rightarrow> NaN)"

definition isNaN :: "jsval \<Rightarrow> bool" where
  "isNaN v = (toNumber v = NaN)"

text \<open>\<open>x > 0\<close> on a number.\<close>

definition positive :: "number \<Rightarrow> bool" where
  "positive x = (case x of Fin r \<Rightarrow> 0 < r | Infty pos \<Rightarrow> pos | NaN \<Rightarrow> False)"

text \<open>\<open>parseFloat(v)\<close>: the decimal literal at the start of \<open>String(v)\<close>.\<close>

definition parseFloat :: "jsval \<Rightarrow> number" where
  "parseFloat v =
     (case parse_decimal (dropWhile is_space (toString v)) of
        Some (x, rest) \<Rightarrow> x
      | None \<Rightarrow> NaN)"

text \<open>\<open>parseInt(v)\<close>: sign, an optional \<open>0x\<close>, then the digits at the start of \<open>String(v)\<close>.\<close>

definition parseInt :: "jsval \<Rightarrow> number" where
  "parseInt v =
     (let s = dropWhile is_space (toString v);
          neg = (s \<noteq> [] \<and> hd s = CHR ''-'');
          s1 = (if s \<noteq> [] \<and> (hd s = CHR ''-'' \<or> hd s = CHR ''+'') then tl s else s);
          hex = (toLowerCase (take 2 s1) = ''0x'');
          radix = (if hex then 16 else 10);
          ds = takeWhile (\<lambda>c. radix_digit radix c \<noteq> None) (if hex then drop 2 s1 else s1)
      in if ds = [] then NaN
         else to_double (if neg then - of_int (radix_val radix ds)
                         else of_int (radix_val radix ds)))"

section \<open>Regular expressions\<close>

text \<open>
  The regular expressions of the source are kept as data and run by one backtracking
  matcher. \<open>ends r ci s i\<close> lists the positions where a match of \<open>r\<close> that starts at
  \<open>i\<close> can end, in the order in which a backtracking engine tries them, so that the
  head is the end of the match JavaScript reports. \<open>ci\<close> is the \<open>i\<close> flag.
\<close>

datatype cls = CChar char | CRange char char | CWord | CSpace | CDigit

datatype rx =
    OneOf "cls list"
  | NoneOf "cls list"
  | Seq rx rx
  | Alt rx rx
  | Star rx
  | WordB
  | Eps

fun cls_match :: "bool \<Rightarrow> cls \<Rightarrow> char \<Rightarrow> bool" where
  "cls_match ci (CChar c) x = (x = c \<or> (ci \<and> upper_char x = upper_char c))"
| "cls_match ci (CRange a b) x =
     ((code a \<le> code x \<and> code x \<le> code b)
      \<or> (ci \<and> ((code a \<le> code (upper_char x) \<and> code (upper_char x) \<le> code b)
              \<or> (code a \<le> code (lower_char x) \<and> code (lower_char x) \<le> code b))))"
| "cls_match ci CWord x = is_word x"
| "cls_match ci CSpace x = is_space x"
| "cls_match ci CDigit x = is_digit x"

definition word_at :: "string \<Rightarrow> nat \<Rightarrow> bool" where
  "word_at s i = (i < length s \<and> is_word (s ! i))"

primrec star_iter :: "nat \<Rightarrow> (nat \<Rightarrow> nat list) \<Rightarrow> nat \<Rightarrow> nat list" where
  "star_iter 0 f i = [i]"
| "star_iter (Suc n) f i = concat (map (star_iter n f) (filter (\<lambda>e. i < e) (f i))) @ [i]"

primrec ends :: "rx \<Rightarrow> bool \<Rightarrow> string \<Rightarrow> nat \<Rightarrow> nat list" where
  "ends (OneOf cs) ci s i =
     (if i < length s \<and> list_ex (\<lambda>c. cls_match ci c (s ! i)) cs then [Suc i] else [])"
| "ends (NoneOf cs) ci s i =
     (if i < length s \<and> \<not> list_ex (\<lambda>c. cls_match ci c (s ! i)) cs then [Suc i] else [])"
| "ends (Seq a b) ci s i = concat (map (ends b ci s) (ends a ci s i))"
| "ends (Alt a b) ci s i = ends a ci s i @ ends b ci s i"
| "ends (Star a) ci s i = star_iter (length s - i) (ends a ci s) i"
| "ends WordB ci s i =
     (if (0 < i \<and> word_at s (i - 1)) \<noteq> word_at s i then [i] else [])"
| "ends Eps ci s i = [i]"

definition rx_plus :: "rx \<Rightarrow> rx" where
  "rx_plus r = Seq r (Star r)"

definition rx_opt :: "rx \<Rightarrow> rx" where
  "rx_opt r = Alt r Eps"

primrec rx_str :: "string \<Rightarrow> rx" where
  "rx_str [] = Eps"
| "rx_str (c # cs) = Seq (OneOf [CChar c]) (rx_str cs)"

primrec rx_alts :: "rx list \<Rightarrow> rx" where
  "rx_alts [] = NoneOf [CRange (CHR 0x00) (CHR 0xFF)]"
| "rx_alts (r # rs) = (if rs = [] then r else Alt r (rx_alts rs))"

text \<open>The leftmost match that starts at one of the candidate positions.\<close>

primrec first_match :: "rx \<Rightarrow> bool \<Rightarrow> string \<Rightarrow> nat list \<Rightarrow> (nat \<times> nat) option" where
  "first_match r ci s [] = None"
| "first_match r ci s (b # bs) =
     (case ends r ci s b of [] \<Rightarrow> first_match r ci s bs | e # es \<Rightarrow> Some (b, e))"

definition find_match :: "rx \<Rightarrow> bool \<Rightarrow> string \<Rightarrow> nat \<Rightarrow> (nat \<times> nat) option" where
  "find_match r ci s i = first_match r ci s [i ..< Suc (length s)]"

text \<open>
  \<open>s.replace(/r/g, rep)\<close>: every match, left to right, is replaced; after an empty
  match the scan moves on by one character. Every step moves forward, so
  \<open>length s + 1\<close> steps are enough.
\<close>

primrec replace_from :: "nat \<Rightarrow> rx \<Rightarrow> bool \<Rightarrow> string \<Rightarrow> string \<Rightarrow> nat \<Rightarrow> string" where
  "replace_from 0 r ci rep s i = drop i s"
| "replace_from (Suc n) r ci rep s i =
     (case find_match r ci s i of
        None \<Rightarrow> drop i s
      | Some (b, e) \<Rightarrow>
          take (b - i) (drop i s) @ rep @
          (if b < e then replace_from n r ci rep s e
           else take 1 (drop e s) @ replace_from n r ci rep s (Suc e)))"

definition replace_all :: "rx \<Rightarrow> bool \<Rightarrow> string \<Rightarrow> string \<Rightarrow> string" where
  "replace_all r ci rep s = replace_from (Suc (length s)) r ci rep s 0"

text \<open>\<open>s.match(/r/g) || []\<close>: the matched substrings, left to right.\<close>

primrec match_from :: "nat \<Rightarrow> rx \<Rightarrow> bool \<Rightarrow> string \<Rightarrow> nat \<Rightarrow> string list" where
  "match_from 0 r ci s i = []"
| "match_from (Suc n) r ci s i =
     (case find_match r ci s i of
        None \<Rightarrow> []
      | Some (b, e) \<Rightarrow>
          take (e - b) (drop b s) # match_from n r ci s (if b < e then e else Suc e))"

definition match_all :: "rx \<Rightarrow> bool \<Rightarrow> string \<Rightarrow> string list" where
  "match_all r ci s = match_from (Suc (length s)) r ci s 0"

text \<open>
  \<open>r.test(s)\<close> on a regular expression with the \<open>g\<close> flag reads and writes the
  \<open>lastIndex\<close> of the object: the search starts there, a match leaves \<open>lastIndex\<close> at
  its end, a failure resets it to 0. The result is the answer and the new \<open>lastIndex\<close>.
\<close>

definition test_global :: "rx \<Rightarrow> bool \<Rightarrow> string \<Rightarrow> nat \<Rightarrow> bool \<times> nat" where
  "test_global r ci s lastIndex =
     (if length s < lastIndex then (False, 0)
      else case find_match r ci s lastIndex of
             None \<Rightarrow> (False, 0)
           | Some (b, e) \<Rightarrow> (True, e))"

text \<open>\<open>/^r/.test(s)\<close>, without the \<open>g\<close> flag: no state.\<close>

definition test_prefix :: "rx \<Rightarrow> string \<Rightarrow> bool" where
  "test_prefix r s = (ends r False s 0 \<noteq> [])"

text \<open>\<open>/^r$/.test(s)\<close>.\<close>

definition test_whole :: "rx \<Rightarrow> string \<Rightarrow> bool" where
  "test_whole r s = (length s \<in> set (ends r False s 0))"

section \<open>Configuration\<close>

text \<open>\<open>CONFIG.LIMITS\<close> of constants/config.js and \<open>EMBEDDINGS\<close> of constants/embeddings.js.\<close>

definition MAX_DESCRIPTION_LENGTH :: nat where
  "MAX_DESCRIPTION_LENGTH = 2000"

definition MAX_CATEGORIES :: nat where
  "MAX_CATEGORIES = 10"

definition MAX_TITLE_LENGTH :: nat where
  "MAX_TITLE_LENGTH = 500"

definition DENSE_DIM :: nat where
  "DENSE_DIM = 384"

definition MAX_SPARSE_FEATURES :: nat where
  "MAX_SPARSE_FEATURES = 100"

section \<open>TextProcessor.cleanText\<close>

text \<open>\<open>/<[^>]*>/g\<close>\<close>

definition rx_tag :: rx where
  "rx_tag = Seq (OneOf [CChar CHR ''<'']) (Seq (Star (NoneOf [CChar CHR ''>''])) (OneOf [CChar CHR ''>'']))"

text \<open>\<open>/&[a-zA-Z0-9#]+;/g\<close>\<close>

definition rx_entity :: rx where
  "rx_entity =
     Seq (OneOf [CChar CHR ''&''])
       (Seq (rx_plus (OneOf [CRange CHR ''a'' CHR ''z'', CRange CHR ''A'' CHR ''Z'',
                             CRange CHR ''0'' CHR ''9'', CChar CHR ''#'']))
            (OneOf [CChar CHR '';'']))"

text \<open>\<open>/[^\w\s\-\.\(\)\[\]\/]/g\<close>\<close>

definition rx_punct :: rx where
  "rx_punct =
     NoneOf [CWord, CSpace, CChar CHR ''-'', CChar CHR ''.'', CChar CHR ''('', CChar CHR '')'',
             CChar CHR ''['', CChar CHR '']'', CChar CHR ''/'']"

text \<open>\<open>/\s+/g\<close>\<close>

definition rx_spaces :: rx where
  "rx_spaces = rx_plus (OneOf [CSpace])"

definition cleanText :: "jsval \<Rightarrow> string" where
  "cleanText text =
     (case text of
        JStr s \<Rightarrow>
          if s = [] then []
          else trim (replace_all rx_spaces False '' ''
                 (replace_all rx_punct False '' ''
                   (replace_all rx_entity False '' ''
                     (replace_all rx_tag False '' '' s))))
      | _ \<Rightarrow> [])"

section \<open>ProductConverter.processCategories\<close>

definition promotionalKeywords :: "string list" where
  "promotionalKeywords =
     [''sale'', ''new'', ''clearance'', ''promo'', ''deal'', ''special'', ''limited'']"

definition processCategories :: "jsval \<Rightarrow> string list" where
  "processCategories categories =
     (case categories of
        JArr cats \<Rightarrow>
          take MAX_CATEGORIES
            (filter (\<lambda>cat. \<not> list_ex (\<lambda>keyword. str_includes (toLowerCase cat) keyword)
                                     promotionalKeywords)
               (map cleanText cats))
      | _ \<Rightarrow> [])"

text \<open>
  The category list of the emitted record, as both converters build it:
  \<open>categories.length > 0 ? categories : ['Products']\<close>.
\<close>

definition emitted_categories :: "string list \<Rightarrow> string list" where
  "emitted_categories categories = (if categories \<noteq> [] then categories else [''Products''])"

section \<open>ProductConverter\<close>

text \<open>
  The top-level object of constants/config.js. Its sections are read below through the
  typed constants above, so their contents are left out here; what matters is which
  keys exist: the converter reads \<open>CONFIG.COMMERCE.CURRENCY_CODE\<close>, and there is no
  \<open>COMMERCE\<close>.
\<close>

definition CONFIG :: jsval where
  "CONFIG = JObj
     [(''INPUT_DIRECTORY'', JStr ''./Data''),
      (''OUTPUT_DIRECTORY'', JStr ''./output''),
      (''FILE_PATTERNS'', JObj []),
      (''EMBEDDINGS'', JObj []),
      (''LIMITS'', JObj [(''MAX_DESCRIPTION_LENGTH'', JNum (Fin 2000)),
                         (''MAX_CATEGORIES'', JNum (Fin 10)),
                         (''MAX_TITLE_LENGTH'', JNum (Fin 500))]),
      (''PROCESSING'', JObj []),
      (''LOGGING'', JObj []),
      (''OPTIMIZATION'', JObj [])]"

definition CONFIG_COMMERCE_CURRENCY_CODE :: "error + jsval" where
  "CONFIG_COMMERCE_CURRENCY_CODE =
     bindE (getprop CONFIG ''COMMERCE'') (\<lambda>commerce. getprop commerce ''CURRENCY_CODE'')"

definition processDescription :: "jsval \<Rightarrow> string" where
  "processDescription description =
     (if \<not> truthy description then []
      else substring0 MAX_DESCRIPTION_LENGTH (cleanText description))"

definition processPriceInfo :: "jsval \<Rightarrow> error + jsval" where
  "processPriceInfo price =
     (if \<not> truthy price \<or> isNaN price then Inr JNull
      else bindE CONFIG_COMMERCE_CURRENCY_CODE
             (\<lambda>currencyCode. Inr (JObj [(''currencyCode'', currencyCode),
                                         (''price'', JNum (parseFloat price))])))"

text \<open>\<open>/[^a-z0-9\s-]/g\<close>\<close>

definition rx_not_slug :: rx where
  "rx_not_slug = NoneOf [CRange CHR ''a'' CHR ''z'', CRange CHR ''0'' CHR ''9'', CSpace, CChar CHR ''-'']"

definition generateProductUri :: "jsval \<Rightarrow> string \<Rightarrow> string" where
  "generateProductUri productId title =
     (let slug = substring0 50
                   (replace_all rx_spaces False ''-''
                      (replace_all rx_not_slug False [] (toLowerCase title)))
      in ''/products/'' @ slug @ ''-'' @ toString productId)"

text \<open>The first loop of determineGenericAvailability, over the status fields.\<close>

fun availability_by_status :: "jsobj \<Rightarrow> string list \<Rightarrow> string option" where
  "availability_by_status product [] = None"
| "availability_by_status product (field # fields) =
     (if lookup product field \<noteq> JUndefined then
        (let v = toLowerCase (toString (lookup product field))
         in if str_includes v ''stock'' \<or> str_includes v ''available''
               \<or> v = ''true'' \<or> v = ''1''
            then Some ''IN_STOCK''
            else if str_includes v ''out'' \<or> v = ''false'' \<or> v = ''0''
            then Some ''OUT_OF_STOCK''
            else availability_by_status product fields)
      else availability_by_status product fields)"

text \<open>The second loop, over the quantity fields.\<close>

fun availability_by_quantity :: "jsobj \<Rightarrow> string list \<Rightarrow> string option" where
  "availability_by_quantity product [] = None"
| "availability_by_quantity product (field # fields) =
     (if lookup product field \<noteq> JUndefined \<and> \<not> isNaN (lookup product field)
      then Some (if positive (parseInt (lookup product field)) then ''IN_STOCK''
                 else ''OUT_OF_STOCK'')
      else availability_by_quantity product fields)"

definition availabilityFields :: "string list" where
  "availabilityFields = [''availability'', ''status'', ''stock_status'', ''in_stock'', ''available'']"

definition quantityFields :: "string list" where
  "quantityFields = [''quantity'', ''stock'', ''inventory'', ''qty'']"

definition determineGenericAvailability :: "jsobj \<Rightarrow> string" where
  "determineGenericAvailability product =
     (case availability_by_status product availabilityFields of
        Some a \<Rightarrow> a
      | None \<Rightarrow>
          (case availability_by_quantity product quantityFields of
             Some a \<Rightarrow> a
           | None \<Rightarrow> ''IN_STOCK''))"

text \<open>
  The names every plain object inherits from \<open>Object.prototype\<close>: \<open>o[k]\<close> is truthy
  for them although \<open>o\<close> has no such own property.
\<close>

definition inherited_property :: "string \<Rightarrow> bool" where
  "inherited_property k =
     (k \<in> set [''constructor'', ''__proto__'', ''hasOwnProperty'', ''isPrototypeOf'',
               ''propertyIsEnumerable'', ''toLocaleString'', ''toString'', ''valueOf'',
               ''__defineGetter__'', ''__defineSetter__'', ''__lookupGetter__'',
               ''__lookupSetter__''])"

definition attributeFields :: "string list" where
  "attributeFields =
     [''sku'', ''model'', ''color'', ''size'', ''weight'', ''dimensions'', ''material'',
      ''features'', ''specifications'', ''keywords'', ''tags'']"

definition systemFields :: "string list" where
  "systemFields =
     [''id'', ''title'', ''name'', ''description'', ''price'', ''categories'', ''brand'',
      ''availability'']"

definition common_attribute :: "jsobj \<Rightarrow> jsobj \<Rightarrow> string \<Rightarrow> jsobj" where
  "common_attribute genericProduct attributes field =
     (if truthy (lookup genericProduct field) then
        (let values = (case lookup genericProduct field of
                         JArr xs \<Rightarrow> xs
                       | v \<Rightarrow> [JStr (toString v)])
         in assign attributes field
              (JObj [(''text'', JArr (map (\<lambda>val. JStr (cleanText (JStr (toString val)))) values))]))
      else attributes)"

definition custom_attribute :: "jsobj \<Rightarrow> jsobj \<Rightarrow> string \<Rightarrow> jsobj" where
  "custom_attribute genericProduct attributes key =
     (if key \<notin> set systemFields
         \<and> \<not> (truthy (lookup attributes key) \<or> inherited_property key)
         \<and> lookup genericProduct key \<noteq> JNull \<and> lookup genericProduct key \<noteq> JUndefined
      then
        (let values = (case lookup genericProduct key of
                         JArr xs \<Rightarrow> map (\<lambda>x. JStr (toString x)) xs
                       | v \<Rightarrow> [JStr (toString v)])
         in assign attributes (''custom_'' @ key)
              (JObj [(''text'', JArr (map (\<lambda>val. JStr (cleanText val)) values))]))
      else attributes)"

definition processGenericAttributes :: "jsobj \<Rightarrow> jsobj" where
  "processGenericAttributes genericProduct =
     foldl (custom_attribute genericProduct)
       (foldl (common_attribute genericProduct) [] attributeFields)
       (map fst genericProduct)"

text \<open>\<open>{...v}\<close>: the own enumerable properties of a value.\<close>

definition spread :: "jsval \<Rightarrow> jsobj" where
  "spread v =
     (case v of
        JObj kvs \<Rightarrow> kvs
      | JArr xs \<Rightarrow> map (\<lambda>i. (nat_digits i, xs ! i)) [0 ..< length xs]
      | JStr s \<Rightarrow> map (\<lambda>i. (nat_digits i, JStr [s ! i])) [0 ..< length s]
      | _ \<Rightarrow> [])"

text \<open>\<open>[...v]\<close>: only arrays and strings can be iterated.\<close>

definition spread_iterable :: "jsval \<Rightarrow> error + jsval list" where
  "spread_iterable v =
     (case v of
        JArr xs \<Rightarrow> Inr xs
      | JStr s \<Rightarrow> Inr (map (\<lambda>c. JStr [c]) s)
      | _ \<Rightarrow> Inl TypeError)"

text \<open>
  \<open>xs.includes(v)\<close>: primitives are compared by value; an object or an array is only
  equal to itself, and the values compared here come from different parts of the parsed
  input, so they are never the same object.
\<close>

definition array_includes :: "jsval list \<Rightarrow> jsval \<Rightarrow> bool" where
  "array_includes xs v =
     (case v of JArr ys \<Rightarrow> False | JObj kvs \<Rightarrow> False | _ \<Rightarrow> v \<in> set xs)"

definition push_new :: "jsval list \<Rightarrow> jsval \<Rightarrow> jsval list" where
  "push_new newFilterFields gender =
     (if \<not> array_includes newFilterFields gender then newFilterFields @ [gender]
      else newFilterFields)"

definition processVertexAttributes :: "jsobj \<Rightarrow> error + jsobj" where
  "processVertexAttributes vertexProduct =
     (let attributes = spread (js_or (lookup vertexProduct ''attributes'') (JObj []));
          audience = lookup vertexProduct ''audience''
      in if \<not> truthy audience then Inr attributes
         else bindE (getprop audience ''genders'') (\<lambda>g.
           if \<not> truthy g then Inr attributes
           else
             let genders = (case g of JArr xs \<Rightarrow> xs | _ \<Rightarrow> [g]);
                 attributes1 = assign attributes ''gender_esai'' (JObj [(''text'', JArr genders)]);
                 filter_fields = lookup attributes1 ''filter_fields''
             in if \<not> truthy filter_fields then Inr attributes1
                else bindE (getprop filter_fields ''text'') (\<lambda>currentFilterFields.
                  if \<not> truthy currentFilterFields then Inr attributes1
                  else bindE (spread_iterable currentFilterFields) (\<lambda>copy.
                    Inr (assign attributes1 ''filter_fields''
                           (JObj [(''text'', JArr (foldl push_new copy genders))]))))))"

definition first_truthy :: "jsobj \<Rightarrow> string list \<Rightarrow> jsval" where
  "first_truthy product fields =
     (case filter (\<lambda>field. truthy (lookup product field)) fields of
        [] \<Rightarrow> JUndefined
      | field # rest \<Rightarrow> lookup product field)"

text \<open>
  Both converters take the clock reading \<open>now\<close> of \<open>Date.now()\<close> as an argument. They
  return \<open>None\<close> for \<open>null\<close>: any exception inside is caught and the record is given up.
\<close>

definition vertex_productId :: "nat \<Rightarrow> jsobj \<Rightarrow> jsval" where
  "vertex_productId now vertexProduct =
     js_or (lookup vertexProduct ''id'') (JStr (''vertex-product-'' @ nat_digits now))"

definition vertex_title :: "jsobj \<Rightarrow> string" where
  "vertex_title vertexProduct =
     substring0 MAX_TITLE_LENGTH
       (cleanText (js_or (lookup vertexProduct ''title'') (JStr ''Untitled Product'')))"

text \<open>The spread \<open>...(vertexProduct.price && { priceInfo: ... })\<close>.\<close>

definition vertex_priceInfo :: "jsobj \<Rightarrow> error + jsobj" where
  "vertex_priceInfo vertexProduct =
     (let price = lookup vertexProduct ''price''
      in if \<not> truthy price then Inr []
         else bindE (getprop price ''currency'') (\<lambda>currency.
              bindE (if truthy currency then Inr currency else CONFIG_COMMERCE_CURRENCY_CODE)
                (\<lambda>currencyCode.
              bindE (getprop price ''amount'') (\<lambda>amount.
                Inr [(''priceInfo'',
                      JObj [(''currencyCode'', currencyCode),
                            (''price'', JNum (parseFloat (js_or amount (JNum (Fin 0)))))])]))))"

text \<open>The spread \<open>...(vertexProduct.brands && vertexProduct.brands.length > 0 && { brands: ... })\<close>.\<close>

definition vertex_brands :: "jsobj \<Rightarrow> error + jsobj" where
  "vertex_brands vertexProduct =
     (let brands = lookup vertexProduct ''brands''
      in if \<not> truthy brands then Inr []
         else bindE (getprop brands ''length'') (\<lambda>len.
                Inr (if positive (toNumber len) then [(''brands'', brands)] else [])))"

definition vertex_fields :: "nat \<Rightarrow> jsobj \<Rightarrow> jsobj" where
  "vertex_fields now vertexProduct =
     (let productId = vertex_productId now vertexProduct;
          title = vertex_title vertexProduct;
          categories = processCategories (js_or (lookup vertexProduct ''categories'') (JArr []));
          description = processDescription (js_or (lookup vertexProduct ''description'') (JStr []))
      in [(''id'', productId),
          (''title'', JStr title),
          (''categories'', JArr (map JStr (emitted_categories categories))),
          (''description'', JStr description),
          (''uri'', js_or (lookup vertexProduct ''uri'') (JStr (generateProductUri productId title))),
          (''availability'', js_or (lookup vertexProduct ''availability'') (JStr ''IN_STOCK'')),
          (''languageCode'', js_or (lookup vertexProduct ''languageCode'') (JStr ''en''))])"

definition convertVertexProduct_body :: "nat \<Rightarrow> jsobj \<Rightarrow> error + jsobj" where
  "convertVertexProduct_body now vertexProduct =
     bindE (vertex_priceInfo vertexProduct) (\<lambda>priceInfo.
     bindE (vertex_brands vertexProduct) (\<lambda>brands.
     bindE (processVertexAttributes vertexProduct) (\<lambda>attributes.
       Inr (vertex_fields now vertexProduct
            @ priceInfo @ brands
            @ [(''attributes'', JObj attributes)]
            @ (if truthy (lookup vertexProduct ''images'')
               then [(''images'', lookup vertexProduct ''images'')] else [])))))"

definition convertVertexProduct :: "nat \<Rightarrow> jsobj \<Rightarrow> jsobj option" where
  "convertVertexProduct now vertexProduct =
     (case convertVertexProduct_body now vertexProduct of
        Inl e \<Rightarrow> None
      | Inr commerceProduct \<Rightarrow> Some commerceProduct)"

definition generic_categories :: "jsobj \<Rightarrow> jsval" where
  "generic_categories genericProduct =
     (let v = first_truthy genericProduct
                [''categories'', ''category'', ''product_categories'', ''tags'', ''types'']
      in if isArray v then v else if isString v then JArr [v] else JArr [])"

fun generic_priceInfo :: "jsobj \<Rightarrow> string list \<Rightarrow> error + jsval" where
  "generic_priceInfo genericProduct [] = Inr JNull"
| "generic_priceInfo genericProduct (field # fields) =
     (if truthy (lookup genericProduct field) \<and> \<not> isNaN (lookup genericProduct field)
      then processPriceInfo (lookup genericProduct field)
      else generic_priceInfo genericProduct fields)"

definition generic_brands :: "jsobj \<Rightarrow> jsval list" where
  "generic_brands genericProduct =
     (let v = first_truthy genericProduct [''brand'', ''manufacturer'', ''company'', ''vendor'']
      in if truthy v then [v] else [])"

definition generic_productId :: "nat \<Rightarrow> jsobj \<Rightarrow> jsval" where
  "generic_productId now genericProduct =
     js_or (js_or (js_or (lookup genericProduct ''id'') (lookup genericProduct ''product_id''))
                  (lookup genericProduct ''sku''))
           (JStr (''generic-product-'' @ nat_digits now))"

definition generic_title :: "jsobj \<Rightarrow> string" where
  "generic_title genericProduct =
     substring0 MAX_TITLE_LENGTH
       (cleanText (js_or (js_or (js_or (js_or (lookup genericProduct ''title'')
                                              (lookup genericProduct ''name''))
                                       (lookup genericProduct ''product_name''))
                                (lookup genericProduct ''display_name''))
                         (JStr ''Untitled Product'')))"

definition generic_description :: "jsobj \<Rightarrow> string" where
  "generic_description genericProduct =
     processDescription
       (js_or (js_or (js_or (js_or (lookup genericProduct ''description'')
                                   (lookup genericProduct ''details''))
                            (lookup genericProduct ''summary''))
                     (lookup genericProduct ''content''))
              (JStr []))"

definition generic_fields :: "nat \<Rightarrow> jsobj \<Rightarrow> jsobj" where
  "generic_fields now genericProduct =
     (let productId = generic_productId now genericProduct;
          title = generic_title genericProduct;
          categories = processCategories (generic_categories genericProduct)
      in [(''id'', productId),
          (''title'', JStr title),
          (''categories'', JArr (map JStr (emitted_categories categories))),
          (''description'', JStr (generic_description genericProduct)),
          (''uri'', JStr (generateProductUri productId title)),
          (''availability'', JStr (determineGenericAvailability genericProduct)),
          (''languageCode'', JStr ''en'')])"

definition convertGenericProduct_body :: "nat \<Rightarrow> jsobj \<Rightarrow> error + jsobj" where
  "convertGenericProduct_body now genericProduct =
     bindE (generic_priceInfo genericProduct [''price'', ''cost'', ''amount'', ''value''])
       (\<lambda>priceInfo.
          Inr (generic_fields now genericProduct
               @ (if truthy priceInfo then [(''priceInfo'', priceInfo)] else [])
               @ (if generic_brands genericProduct \<noteq> []
                  then [(''brands'', JArr (generic_brands genericProduct))] else [])
               @ [(''attributes'', JObj (processGenericAttributes genericProduct))]))"

definition convertGenericProduct :: "nat \<Rightarrow> jsobj \<Rightarrow> jsobj option" where
  "convertGenericProduct now genericProduct =
     (case convertGenericProduct_body now genericProduct of
        Inl e \<Rightarrow> None
      | Inr commerceProduct \<Rightarrow> Some commerceProduct)"

section \<open>TextProcessor\<close>

text \<open>
  The parts of a TextProcessor that come from the npm package natural: the word
  tokenizer, the Porter stemmer and the stop-word list. They are not code of this
  repository and stay parameters. One assumption is made about them: a token that names
  a property inherited from \<open>Object.prototype\<close> has a stem that does so too (the
  Porter stemmer leaves \<open>constructor\<close>, the only such name in lower case, unchanged);
  otherwise the source would compute with \<open>NaN\<close> weights, which are not modelled.
\<close>

record TextProcessor =
  tokenizer :: "string \<Rightarrow> string list"
  stemmer :: "string \<Rightarrow> string"
  stopwords :: "string list"

text \<open>
  The search patterns of constants/embeddings.js. They carry the \<open>g\<close> flag and are
  shared objects, so each has a \<open>lastIndex\<close> that lives as long as the process does.
\<close>

record lastIndex =
  li_sizes :: nat
  li_colors :: nat
  li_brands :: nat
  li_numbers :: nat
  li_commerceTerms :: nat

definition fresh_patterns :: lastIndex where
  "fresh_patterns = \<lparr>li_sizes = 0, li_colors = 0, li_brands = 0, li_numbers = 0,
                      li_commerceTerms = 0\<rparr>"

text \<open>\<open>/\b(small|medium|large|xl|xxl|\d+\s*(oz|ml|g|kg|lb|lbs|mg|mcg))\b/gi\<close>\<close>

definition SIZES :: rx where
  "SIZES =
     Seq WordB
       (Seq (rx_alts [rx_str ''small'', rx_str ''medium'', rx_str ''large'', rx_str ''xl'',
                      rx_str ''xxl'',
                      Seq (rx_plus (OneOf [CDigit]))
                        (Seq (Star (OneOf [CSpace]))
                           (rx_alts [rx_str ''oz'', rx_str ''ml'', rx_str ''g'', rx_str ''kg'',
                                     rx_str ''lb'', rx_str ''lbs'', rx_str ''mg'',
                                     rx_str ''mcg'']))])
            WordB)"

text \<open>\<open>/\b(red|blue|green|yellow|black|white|brown|pink|purple|orange|gray|grey)\b/gi\<close>\<close>

definition COLORS :: rx where
  "COLORS =
     Seq WordB
       (Seq (rx_alts (map rx_str [''red'', ''blue'', ''green'', ''yellow'', ''black'', ''white'',
                                  ''brown'', ''pink'', ''purple'', ''orange'', ''gray'', ''grey'']))
            WordB)"

text \<open>\<open>/\b[A-Z][a-z]+(?:\s+[A-Z][a-z]+)*\b/g\<close>\<close>

definition BRANDS :: rx where
  "BRANDS =
     (let capitalised = Seq (OneOf [CRange CHR ''A'' CHR ''Z''])
                          (rx_plus (OneOf [CRange CHR ''a'' CHR ''z'']))
      in Seq WordB
           (Seq capitalised
              (Seq (Star (Seq (rx_plus (OneOf [CSpace])) capitalised)) WordB)))"

text \<open>\<open>/\b\d+(?:\.\d+)?\b/g\<close>\<close>

definition NUMBERS :: rx where
  "NUMBERS =
     Seq WordB
       (Seq (rx_plus (OneOf [CDigit]))
          (Seq (rx_opt (Seq (OneOf [CChar CHR ''.'']) (rx_plus (OneOf [CDigit])))) WordB))"

text \<open>
  \<open>/\b(organic|natural|premium|professional|clinical|pharmaceutical|supplement|vitamin|protein|creatine|amino|bcaa)\b/gi\<close>
\<close>

definition COMMERCE_TERMS :: rx where
  "COMMERCE_TERMS =
     Seq WordB
       (Seq (rx_alts (map rx_str [''organic'', ''natural'', ''premium'', ''professional'',
                                  ''clinical'', ''pharmaceutical'', ''supplement'', ''vitamin'',
                                  ''protein'', ''creatine'', ''amino'', ''bcaa'']))
            WordB)"

definition SYNONYMS :: "(string \<times> string list) list" where
  "SYNONYMS =
     [(''supplement'', [''vitamin'', ''nutrient'', ''pill'', ''capsule'', ''tablet'']),
      (''protein'', [''whey'', ''casein'', ''isolate'', ''concentrate'']),
      (''muscle'', [''strength'', ''power'', ''building'', ''growth'']),
      (''weight'', [''mass'', ''bulk'', ''size'', ''gain'', ''loss'']),
      (''energy'', [''boost'', ''power'', ''stamina'', ''endurance'']),
      (''health'', [''wellness'', ''fitness'', ''nutrition'', ''healthy''])]"

definition KEYWORD_BOOST :: "(string \<times> rat) list" where
  "KEYWORD_BOOST =
     [(''title'', 3), (''brand'', 5 / 2), (''category'', 2), (''description'', 3 / 2),
      (''features'', 6 / 5)]"

text \<open>
  \<open>x.toFixed(d)\<close>: the decimal with \<open>d\<close> fractional digits nearest to \<open>x\<close>, ties away
  from zero; \<open>toFixed_num\<close> is its value, which \<open>parseFloat(x.toFixed(d))\<close> returns.
\<close>

definition toFixed_int :: "nat \<Rightarrow> rat \<Rightarrow> nat" where
  "toFixed_int d x = nat \<lfloor>\<bar>x\<bar> * 10 ^ d + 1 / 2\<rfloor>"

definition toFixed_num :: "nat \<Rightarrow> rat \<Rightarrow> rat" where
  "toFixed_num d x = (if x < 0 then - 1 else 1) * of_nat (toFixed_int d x) / 10 ^ d"

definition toFixed :: "nat \<Rightarrow> rat \<Rightarrow> string" where
  "toFixed d x =
     (let n = toFixed_int d x;
          fraction = nat_digits (n mod 10 ^ d)
      in (if x < 0 then ''-'' else []) @ nat_digits (n div 10 ^ d) @
         (if d = 0 then []
          else ''.'' @ replicate (d - length fraction) CHR ''0'' @ fraction))"

definition getContextBoosts :: "string \<Rightarrow> (string \<times> rat) list" where
  "getContextBoosts context =
     (if context = ''title'' then assign KEYWORD_BOOST ''title'' 3
      else if context = ''description'' then assign KEYWORD_BOOST ''description'' (3 / 2)
      else if context = ''category'' then assign KEYWORD_BOOST ''category'' 2
      else if context = ''brand'' then assign KEYWORD_BOOST ''brand'' (5 / 2)
      else KEYWORD_BOOST)"

text \<open>
  getPatternBoost calls \<open>test\<close> on five of the shared patterns, in this order, so it
  reads and writes their \<open>lastIndex\<close>.
\<close>

definition getPatternBoost :: "string \<Rightarrow> lastIndex \<Rightarrow> rat \<times> lastIndex" where
  "getPatternBoost token st =
     (let (commerce, i1) = test_global COMMERCE_TERMS True token (li_commerceTerms st);
          (size, i2) = test_global SIZES True token (li_sizes st);
          (color, i3) = test_global COLORS True token (li_colors st);
          (num, i4) = test_global NUMBERS False token (li_numbers st);
          (brand, i5) = test_global BRANDS False token (li_brands st)
      in ((if commerce then 3 / 2 else 1) * (if size then 13 / 10 else 1)
            * (if color then 6 / 5 else 1) * (if num then 11 / 10 else 1)
            * (if brand then 7 / 5 else 1),
          \<lparr>li_sizes = i2, li_colors = i3, li_brands = i5, li_numbers = i4,
           li_commerceTerms = i1\<rparr>))"

text \<open>The filter of extractKeywords.\<close>

definition keep_token :: "TextProcessor \<Rightarrow> string \<Rightarrow> bool" where
  "keep_token tp token =
     (if length token < 2 \<or> token \<in> set (stopwords tp) then False
      else if \<not> test_prefix (OneOf [CRange CHR ''a'' CHR ''z'', CRange CHR ''A'' CHR ''Z'',
                                     CRange CHR ''0'' CHR ''9'']) token then False
      else if test_whole (rx_plus (OneOf [CDigit])) token
              \<and> positive (parseInt (JStr token))
              \<and> (case parseInt (JStr token) of Fin n \<Rightarrow> n < 10000 | _ \<Rightarrow> False)
      then True
      else test_prefix (OneOf [CRange CHR ''a'' CHR ''z'', CRange CHR ''A'' CHR ''Z'']) token)"

text \<open>\<open>o[k] || d\<close> on a table of numbers.\<close>

definition own_or :: "(string \<times> rat) list \<Rightarrow> string \<Rightarrow> rat \<Rightarrow> rat" where
  "own_or table k d = (case map_of table k of Some v \<Rightarrow> (if v \<noteq> 0 then v else d) | None \<Rightarrow> d)"

text \<open>
  One round of the loop that builds \<open>termFreq\<close>. An assignment to \<open>__proto__\<close> does
  not create a property.
\<close>

definition termFreq_step ::
  "TextProcessor \<Rightarrow> (string \<times> rat) list \<Rightarrow> (string \<times> rat) list \<times> lastIndex \<Rightarrow> string
     \<Rightarrow> (string \<times> rat) list \<times> lastIndex" where
  "termFreq_step tp contextBoosts acc token =
     (let termFreq = fst acc;
          stemmed = stemmer tp token;
          baseWeight = 1;
          boost0 = own_or contextBoosts token (own_or contextBoosts stemmed 1);
          (patternBoost, st) = getPatternBoost token (snd acc);
          boost = boost0 * patternBoost
      in (if stemmed = ''__proto__'' then termFreq
          else assign termFreq stemmed (own_or termFreq stemmed 0 + baseWeight * boost),
          st))"

text \<open>
  expandSynonyms. For a term that names an inherited property, \<open>this.synonyms[term]\<close>
  is a function without \<open>forEach\<close>, and the call throws.
\<close>

definition expand_synonym ::
  "TextProcessor \<Rightarrow> (string \<times> rat) list \<Rightarrow> string \<Rightarrow> (string \<times> rat) list \<Rightarrow> string
     \<Rightarrow> (string \<times> rat) list" where
  "expand_synonym tp termFreq t expansions synonym =
     (let stemmedSynonym = stemmer tp synonym
      in if \<not> (own_or termFreq stemmedSynonym 0 \<noteq> 0 \<or> inherited_property stemmedSynonym)
         then assign expansions stemmedSynonym (own_or termFreq t 0 * (1 / 2))
         else expansions)"

fun expand_terms ::
  "TextProcessor \<Rightarrow> (string \<times> rat) list \<Rightarrow> (string \<times> rat) list \<Rightarrow> string list
     \<Rightarrow> error + (string \<times> rat) list" where
  "expand_terms tp termFreq expansions [] = Inr expansions"
| "expand_terms tp termFreq expansions (t # terms) =
     (case map_of SYNONYMS t of
        Some synonyms \<Rightarrow>
          expand_terms tp termFreq
            (foldl (expand_synonym tp termFreq t) expansions synonyms) terms
      | None \<Rightarrow>
          if inherited_property t then Inl TypeError
          else expand_terms tp termFreq expansions terms)"

definition expandSynonyms ::
  "TextProcessor \<Rightarrow> (string \<times> rat) list \<Rightarrow> error + (string \<times> rat) list" where
  "expandSynonyms tp termFreq =
     bindE (expand_terms tp termFreq [] (map fst termFreq))
       (\<lambda>expansions. Inr (foldl (\<lambda>tf kv. assign tf (fst kv) (snd kv)) termFreq expansions))"

record keyword =
  kw_term :: string
  kw_weight :: rat
  kw_rawFreq :: rat

text \<open>
  extractKeywords. The sort of JavaScript is stable, as \<open>sort_key\<close> is; the comparator
  \<open>b - a\<close> orders by descending frequency.
\<close>

definition extractKeywords ::
  "TextProcessor \<Rightarrow> string \<Rightarrow> nat \<Rightarrow> string \<Rightarrow> lastIndex \<Rightarrow> (error + keyword list) \<times> lastIndex"
  where
  "extractKeywords tp text_arg maxFeatures context st =
     (let cleanedText = cleanText (JStr (toLowerCase text_arg));
          tokens = tokenizer tp cleanedText
      in if tokens = [] then (Inr [], st)
         else
           let filteredTokens = filter (keep_token tp) tokens;
               acc = foldl (termFreq_step tp (getContextBoosts context)) ([], st) filteredTokens;
               totalTokens = length filteredTokens
           in (bindE (expandSynonyms tp (fst acc))
                 (\<lambda>termFreq.
                    Inr (map (\<lambda>entry. \<lparr>kw_term = fst entry,
                                         kw_weight = toFixed_num 4 (snd entry / of_nat totalTokens),
                                         kw_rawFreq = snd entry\<rparr>)
                           (take maxFeatures (sort_key (\<lambda>entry. - snd entry) termFreq)))),
               snd acc))"

text \<open>
  extractSearchPatterns. \<open>text.match\<close> with a \<open>g\<close> pattern starts at 0 and leaves
  \<open>lastIndex\<close> at 0. The result lists sizes, colors, brands and numbers.
\<close>

record searchPatterns =
  sp_sizes :: "string list"
  sp_colors :: "string list"
  sp_brands :: "string list"
  sp_numbers :: "string list"

definition extractSearchPatterns :: "string \<Rightarrow> lastIndex \<Rightarrow> searchPatterns \<times> lastIndex" where
  "extractSearchPatterns text_arg st =
     (\<lparr>sp_sizes = match_all SIZES True text_arg,
       sp_colors = match_all COLORS True text_arg,
       sp_brands = take 3 (match_all BRANDS False text_arg),
       sp_numbers = take 5 (match_all NUMBERS False text_arg)\<rparr>,
      st\<lparr>li_sizes := 0, li_colors := 0, li_brands := 0, li_numbers := 0\<rparr>)"

section \<open>EmbeddingGenerator\<close>

text \<open>The feature toggles of constants/embeddings.js.\<close>

definition ENABLE_DENSE :: bool where
  "ENABLE_DENSE = True"

definition ENABLE_SPARSE :: bool where
  "ENABLE_SPARSE = True"

definition ENABLE_HYBRID :: bool where
  "ENABLE_HYBRID = True"

text \<open>
  hashString: \<open>hash = ((hash << 5) - hash) + char; hash = hash & hash\<close> keeps the hash a
  32-bit integer, and the result is its absolute value.
\<close>

definition hashString :: "string \<Rightarrow> nat" where
  "hashString str =
     nat \<bar>sint (foldl (\<lambda>hash c. (push_bit 5 hash - hash) + of_nat (code c)) (0 :: 32 word) str)\<bar>"

text \<open>
  \<open>Math.sin\<close> and \<open>Math.sqrt\<close> are functions of the platform; the model takes them as
  parameters.
\<close>

record jsMath =
  Math_sin :: "rat \<Rightarrow> rat"
  Math_sqrt :: "rat \<Rightarrow> rat"

text \<open>\<open>x % 1\<close>: the remainder has the sign of \<open>x\<close>.\<close>

definition mod1 :: "rat \<Rightarrow> rat" where
  "mod1 x = (if 0 \<le> x then x - of_int \<lfloor>x\<rfloor> else x - of_int \<lceil>x\<rceil>)"

text \<open>\<open>a / b\<close> on finite numbers.\<close>

definition js_div :: "rat \<Rightarrow> rat \<Rightarrow> number" where
  "js_div a b = (if b \<noteq> 0 then Fin (a / b) else if a = 0 then NaN else Infty (0 < a))"

definition generateDenseEmbedding :: "jsMath \<Rightarrow> string \<Rightarrow> number list option" where
  "generateDenseEmbedding m text_arg =
     (if \<not> ENABLE_DENSE then None
      else
        let hash = hashString text_arg;
            embedding = map (\<lambda>i. toFixed_num 6 (mod1 (Math_sin m (of_nat (hash + i)) * 10000)))
                          [0 ..< DENSE_DIM];
            magnitude = Math_sqrt m (foldl (\<lambda>sum val. sum + val * val) 0 embedding)
        in Some (map (\<lambda>val. js_div val magnitude) embedding))"

record components =
  c_title :: string
  c_description :: string
  c_categories :: string
  c_brands :: string
  c_attributes :: string
  c_keywords :: string
  c_specifications :: string

text \<open>\<open>m.set(k, v)\<close> on a Map: insertion order, whatever the key looks like.\<close>

fun map_set :: "(string \<times> rat) list \<Rightarrow> string \<Rightarrow> rat \<Rightarrow> (string \<times> rat) list" where
  "map_set [] k v = [(k, v)]"
| "map_set ((k', v') # kvs) k v =
     (if k' = k then (k, v) # kvs else (k', v') # map_set kvs k v)"

text \<open>One of the five \<open>forEach\<close> loops that fill \<open>combinedKeywords\<close>.\<close>

definition add_keywords ::
  "rat \<Rightarrow> (string \<times> rat) list \<Rightarrow> keyword list \<Rightarrow> (string \<times> rat) list" where
  "add_keywords boost combinedKeywords kws =
     foldl (\<lambda>combined kw. map_set combined (kw_term kw)
                             (own_or combined (kw_term kw) 0 + kw_weight kw * boost))
       combinedKeywords kws"

text \<open>\<open>searchableComponents?.field ? extractKeywords(field, n, context) : []\<close>\<close>

definition component_keywords ::
  "TextProcessor \<Rightarrow> components option \<Rightarrow> (components \<Rightarrow> string) \<Rightarrow> nat \<Rightarrow> string \<Rightarrow> lastIndex
     \<Rightarrow> (error + keyword list) \<times> lastIndex" where
  "component_keywords tp searchableComponents field n context st =
     (case searchableComponents of
        None \<Rightarrow> (Inr [], st)
      | Some c \<Rightarrow> if field c \<noteq> [] then extractKeywords tp (field c) n context st
                  else (Inr [], st))"

text \<open>The five extractions, in the order of the object literal; the first exception ends them.\<close>

definition sparseEmbeddings ::
  "TextProcessor \<Rightarrow> string \<Rightarrow> components option \<Rightarrow> lastIndex
     \<Rightarrow> (error + keyword list list) \<times> lastIndex" where
  "sparseEmbeddings tp text_arg searchableComponents st =
     (let (general, st1) = extractKeywords tp text_arg MAX_SPARSE_FEATURES ''general'' st
      in case general of Inl e \<Rightarrow> (Inl e, st1) | Inr g \<Rightarrow>
         let (title, st2) = component_keywords tp searchableComponents c_title 20 ''title'' st1
         in case title of Inl e \<Rightarrow> (Inl e, st2) | Inr t \<Rightarrow>
         let (category, st3) =
               component_keywords tp searchableComponents c_categories 15 ''category'' st2
         in case category of Inl e \<Rightarrow> (Inl e, st3) | Inr c \<Rightarrow>
         let (brand, st4) = component_keywords tp searchableComponents c_brands 10 ''brand'' st3
         in case brand of Inl e \<Rightarrow> (Inl e, st4) | Inr b \<Rightarrow>
         let (attributes, st5) =
               component_keywords tp searchableComponents c_attributes 25 ''attributes'' st4
         in case attributes of Inl e \<Rightarrow> (Inl e, st5) | Inr a \<Rightarrow>
            (Inr [g, t, c, b, a], st5))"

definition combine_keywords :: "keyword list list \<Rightarrow> (string \<times> rat) list" where
  "combine_keywords parts =
     (case parts of
        [general, title, category, brand, attributes] \<Rightarrow>
          add_keywords (3 / 2)
            (add_keywords 2
               (add_keywords 2
                  (add_keywords (5 / 2)
                     (add_keywords 1 [] general)
                     title)
                  category)
               brand)
            attributes
      | _ \<Rightarrow> [])"

definition format_keywords :: "(string \<times> rat) list \<Rightarrow> string list" where
  "format_keywords combinedKeywords =
     map (\<lambda>entry. fst entry @ '':'' @ toFixed 4 (snd entry))
       (take MAX_SPARSE_FEATURES (sort_key (\<lambda>entry. - snd entry) combinedKeywords))"

definition generateSparseEmbedding ::
  "TextProcessor \<Rightarrow> string \<Rightarrow> components option \<Rightarrow> lastIndex
     \<Rightarrow> (error + string list option) \<times> lastIndex" where
  "generateSparseEmbedding tp text_arg searchableComponents st =
     (if \<not> ENABLE_SPARSE then (Inr None, st)
      else
        let (parts, st') = sparseEmbeddings tp text_arg searchableComponents st
        in (bindE parts (\<lambda>ps. Inr (Some (format_keywords (combine_keywords ps)))), st'))"

text \<open>\<open>(v || []).map(x => cleanText(x)).join(' ')\<close>: only an array has \<open>map\<close>.\<close>

definition clean_join :: "jsval \<Rightarrow> error + string" where
  "clean_join v =
     (if \<not> truthy v then Inr []
      else case v of JArr xs \<Rightarrow> Inr (join '' '' (map cleanText xs)) | _ \<Rightarrow> Inl TypeError)"

definition elements :: "jsval \<Rightarrow> jsval list" where
  "elements v = (case v of JArr xs \<Rightarrow> xs | _ \<Rightarrow> [])"

text \<open>The texts one attribute contributes in extractSearchableText.\<close>

definition attribute_texts :: "jsval \<Rightarrow> error + jsval list" where
  "attribute_texts attr =
     bindE (getprop attr ''text'') (\<lambda>t.
       if truthy t \<and> isArray t then Inr (elements t)
       else bindE (getprop attr ''numbers'') (\<lambda>n.
         if truthy n \<and> isArray n then Inr (map (\<lambda>x. JStr (toString x)) (elements n))
         else if isString attr then Inr [attr]
         else Inr []))"

text \<open>The texts one attribute contributes in extractSearchableComponents.\<close>

definition attribute_texts_only :: "jsval \<Rightarrow> error + jsval list" where
  "attribute_texts_only attr =
     bindE (getprop attr ''text'') (\<lambda>t.
       if truthy t \<and> isArray t then Inr (elements t) else Inr [])"

definition attributes_text :: "(jsval \<Rightarrow> error + jsval list) \<Rightarrow> jsval \<Rightarrow> error + string" where
  "attributes_text texts attributes =
     (if \<not> truthy attributes then Inr []
      else bindE (mapE texts (map snd (spread attributes)))
             (\<lambda>attributeTexts. Inr (join_vals '' '' (concat attributeTexts))))"

text \<open>\<open>[...].flat()\<close>, one level deep.\<close>

definition flat :: "jsval list \<Rightarrow> jsval list" where
  "flat vs = concat (map (\<lambda>v. case v of JArr xs \<Rightarrow> xs | _ \<Rightarrow> [v]) vs)"

definition price_text :: "jsobj \<Rightarrow> error + string" where
  "price_text product =
     (let priceInfo = js_or (lookup product ''priceInfo'') (lookup product ''price'')
      in if \<not> truthy priceInfo then Inr []
         else bindE (getprop priceInfo ''price'') (\<lambda>price.
              bindE (getprop priceInfo ''currencyCode'') (\<lambda>currencyCode.
                Inr (if truthy price
                     then '' '' @ toString price @ '' '' @ toString (js_or currencyCode (JStr ''USD''))
                     else []))))"

definition resolve_format :: "jsobj \<Rightarrow> string \<Rightarrow> string" where
  "resolve_format product format =
     (if format = ''auto''
      then (if truthy (lookup product ''title'') \<or> truthy (lookup product ''categories'')
            then ''vertex'' else ''generic'')
      else format)"

definition empty_components :: components where
  "empty_components =
     \<lparr>c_title = [], c_description = [], c_categories = [], c_brands = [], c_attributes = [],
      c_keywords = [], c_specifications = []\<rparr>"

text \<open>The components that extractSearchableText fills in for the two known formats.\<close>

definition text_components :: "jsobj \<Rightarrow> error + components" where
  "text_components product =
     bindE (clean_join (lookup product ''categories'')) (\<lambda>categories.
     bindE (clean_join (lookup product ''brands'')) (\<lambda>brands.
     bindE (attributes_text attribute_texts (lookup product ''attributes'')) (\<lambda>attributes.
     bindE (price_text product) (\<lambda>price.
       Inr \<lparr>c_title = cleanText (js_or (js_or (lookup product ''title'') (lookup product ''name''))
                                      (JStr [])),
            c_description = cleanText (js_or (lookup product ''description'') (JStr [])),
            c_categories = categories,
            c_brands = brands,
            c_attributes = attributes,
            c_keywords = [],
            c_specifications =
              join_vals '' ''
                (flat [js_or (lookup product ''tags'') (JArr []),
                       js_or (lookup product ''features'') (JArr []),
                       js_or (lookup product ''specifications'') (JArr []),
                       js_or (lookup product ''keywords'') (JArr [])])
              @ price\<rparr>))))"

definition weightedText :: "components \<Rightarrow> string" where
  "weightedText c =
     join '' ''
       (filter (\<lambda>s. s \<noteq> [])
          (replicate 5 (c_title c) @ replicate 3 (c_categories c) @ replicate 3 (c_brands c)
           @ replicate 2 (c_description c) @ replicate 2 (c_attributes c)
           @ [c_keywords c, c_specifications c]))"

definition patternText :: "searchPatterns \<Rightarrow> string" where
  "patternText patterns =
     (if sp_sizes patterns \<noteq> [] then '' '' @ join '' '' (sp_sizes patterns) else [])
     @ (if sp_colors patterns \<noteq> [] then '' '' @ join '' '' (sp_colors patterns) else [])
     @ (if sp_numbers patterns \<noteq> [] then '' '' @ join '' '' (sp_numbers patterns) else [])"

definition extractSearchableText ::
  "jsobj \<Rightarrow> string \<Rightarrow> lastIndex \<Rightarrow> (error + string) \<times> lastIndex" where
  "extractSearchableText product format st =
     (case (if resolve_format product format = ''vertex''
               \<or> resolve_format product format = ''generic''
            then text_components product else Inr empty_components) of
        Inl e \<Rightarrow> (Inl e, st)
      | Inr searchableComponents \<Rightarrow>
          (let (patterns, st') = extractSearchPatterns (weightedText searchableComponents) st
           in (Inr (substring0 (MAX_DESCRIPTION_LENGTH * 3)
                      (weightedText searchableComponents @ patternText patterns)),
               st')))"

definition extractSearchableComponents :: "jsobj \<Rightarrow> string \<Rightarrow> error + components" where
  "extractSearchableComponents product format =
     bindE (clean_join (lookup product ''categories'')) (\<lambda>categories.
     bindE (clean_join (lookup product ''brands'')) (\<lambda>brands.
     bindE (attributes_text attribute_texts_only (lookup product ''attributes'')) (\<lambda>attributes.
       Inr \<lparr>c_title = cleanText (js_or (js_or (lookup product ''title'') (lookup product ''name''))
                                      (JStr [])),
            c_description = cleanText (js_or (lookup product ''description'') (JStr [])),
            c_categories = categories,
            c_brands = brands,
            c_attributes = attributes,
            c_keywords = [],
            c_specifications = []\<rparr>)))"

text \<open>The object \<open>embeddings\<close>: its keys in insertion order, each with its vector.\<close>

definition generateMultipleDenseEmbeddings ::
  "jsMath \<Rightarrow> string \<Rightarrow> components \<Rightarrow> (string \<times> number list option) list" where
  "generateMultipleDenseEmbeddings m searchableText searchableComponents =
     (if ENABLE_DENSE then [(''primary'', generateDenseEmbedding m searchableText)] else [])
     @ (if trim (c_title searchableComponents) \<noteq> []
        then [(''title'', generateDenseEmbedding m (c_title searchableComponents))] else [])
     @ (if trim (c_categories searchableComponents) \<noteq> []
        then [(''category'', generateDenseEmbedding m (c_categories searchableComponents))]
        else [])"

definition calculateSearchReadinessScore ::
  "components \<Rightarrow> (string \<times> number list option) list \<Rightarrow> string list option \<Rightarrow> rat" where
  "calculateSearchReadinessScore c denseEmbeddings sparseEmbedding =
     (let score = 0;
          score = (if trim (c_title c) \<noteq> [] then score + 3 / 10 else score);
          score = (if trim (c_categories c) \<noteq> [] then score + 1 / 4 else score);
          score = (if trim (c_description c) \<noteq> [] then score + 1 / 5 else score);
          score = (if 0 < length denseEmbeddings then score + 1 / 10 else score);
          score = (case sparseEmbedding of
                     Some sparse \<Rightarrow> (if 0 < length sparse then score + 1 / 20 else score)
                   | None \<Rightarrow> score);
          score = (if trim (c_brands c) \<noteq> [] then score + 1 / 20 else score);
          score = (if trim (c_attributes c) \<noteq> [] then score + 1 / 20 else score)
      in toFixed_num 2 score)"

definition generateEnhancedHybridMetadata ::
  "components \<Rightarrow> (string \<times> number list option) list \<Rightarrow> string list option \<Rightarrow> rat option" where
  "generateEnhancedHybridMetadata searchableComponents denseEmbeddings sparseEmbedding =
     (if \<not> ENABLE_HYBRID then None
      else Some (calculateSearchReadinessScore searchableComponents denseEmbeddings
                   sparseEmbedding))"

text \<open>
  \<open>JSON.parse(JSON.stringify(v))\<close>: a property whose value is \<open>undefined\<close> is dropped,
  \<open>undefined\<close> in an array and every number that is not finite become \<open>null\<close>.
\<close>

fun json_clone :: "jsval \<Rightarrow> jsval" where
  "json_clone (JNum n) = (case n of Fin r \<Rightarrow> JNum n | _ \<Rightarrow> JNull)"
| "json_clone (JArr xs) = JArr (map (\<lambda>x. if x = JUndefined then JNull else json_clone x) xs)"
| "json_clone (JObj kvs) =
     JObj (map (\<lambda>kv. (fst kv, json_clone (snd kv))) (filter (\<lambda>kv. snd kv \<noteq> JUndefined) kvs))"
| "json_clone v = v"

definition clone_product :: "jsobj \<Rightarrow> jsobj" where
  "clone_product product = (case json_clone (JObj product) of JObj kvs \<Rightarrow> kvs | _ \<Rightarrow> [])"

definition numbers_attr :: "number list \<Rightarrow> jsval" where
  "numbers_attr xs = JObj [(''numbers'', JArr (map JNum xs))]"

text \<open>
  \<open>productWithEmbeddings.attributes.k = v\<close>. The class body is strict code, so the
  assignment throws when \<open>attributes\<close> is a primitive; on an array it sets a named
  property, which no output shows.
\<close>

definition set_attribute :: "string \<Rightarrow> jsval \<Rightarrow> jsobj \<Rightarrow> error + jsobj" where
  "set_attribute k v product =
     (case lookup product ''attributes'' of
        JObj attributes \<Rightarrow> Inr (assign product ''attributes'' (JObj (assign attributes k v)))
      | JArr xs \<Rightarrow> Inr product
      | _ \<Rightarrow> Inl TypeError)"

definition set_dense ::
  "string \<Rightarrow> string \<Rightarrow> (string \<times> number list option) list \<Rightarrow> jsobj \<Rightarrow> error + jsobj" where
  "set_dense name k denseEmbeddings product =
     (case map_of denseEmbeddings name of
        Some (Some vector) \<Rightarrow> set_attribute k (numbers_attr vector) product
      | _ \<Rightarrow> Inr product)"

text \<open>The part of addEmbeddingsToProduct that writes into the clone.\<close>

definition inject_embeddings ::
  "(string \<times> number list option) list \<Rightarrow> string list option \<Rightarrow> rat option \<Rightarrow> jsobj
     \<Rightarrow> error + jsobj" where
  "inject_embeddings denseEmbeddings sparseEmbedding hybridMetadata product =
     (let productWithEmbeddings = clone_product product;
          p0 = (if \<not> truthy (lookup productWithEmbeddings ''attributes'')
                then assign productWithEmbeddings ''attributes'' (JObj [])
                else productWithEmbeddings)
      in bindE (set_dense ''primary'' ''dense_embedding'' denseEmbeddings p0) (\<lambda>p1.
         bindE (set_dense ''title'' ''title_embedding'' denseEmbeddings p1) (\<lambda>p2.
         bindE (set_dense ''category'' ''category_embedding'' denseEmbeddings p2) (\<lambda>p3.
         bindE (case sparseEmbedding of
                  Some sparse \<Rightarrow>
                    if 0 < length sparse
                    then set_attribute ''sparse_embedding''
                           (JObj [(''text'', JArr (map JStr sparse))]) p3
                    else Inr p3
                | None \<Rightarrow> Inr p3) (\<lambda>p4.
         bindE (case hybridMetadata of
                  Some score \<Rightarrow>
                    if score \<noteq> 0
                    then set_attribute ''search_readiness_score'' (numbers_attr [Fin score]) p4
                    else Inr p4
                | None \<Rightarrow> Inr p4) (\<lambda>p5.
         set_attribute ''embedding_count''
           (numbers_attr [Fin (of_nat (length denseEmbeddings
                                        + (if sparseEmbedding \<noteq> None then 1 else 0)))])
           p5))))))"

text \<open>The body of the \<open>try\<close> block of addEmbeddingsToProduct.\<close>

definition addEmbeddingsToProduct_body ::
  "jsMath \<Rightarrow> TextProcessor \<Rightarrow> jsobj \<Rightarrow> string \<Rightarrow> lastIndex \<Rightarrow> (error + jsobj) \<times> lastIndex" where
  "addEmbeddingsToProduct_body m tp product format st =
     (let (text_result, st1) = extractSearchableText product format st
      in case text_result of
           Inl e \<Rightarrow> (Inl e, st1)
         | Inr searchableText \<Rightarrow>
             if trim searchableText = [] then (Inr product, st1)
             else
               (case extractSearchableComponents product format of
                  Inl e \<Rightarrow> (Inl e, st1)
                | Inr searchableComponents \<Rightarrow>
                    let denseEmbeddings =
                          generateMultipleDenseEmbeddings m searchableText searchableComponents;
                        (sparse_result, st2) =
                          generateSparseEmbedding tp searchableText (Some searchableComponents) st1
                    in case sparse_result of
                         Inl e \<Rightarrow> (Inl e, st2)
                       | Inr sparseEmbedding \<Rightarrow>
                           (inject_embeddings denseEmbeddings sparseEmbedding
                              (generateEnhancedHybridMetadata searchableComponents denseEmbeddings
                                 sparseEmbedding)
                              product,
                            st2)))"

text \<open>addEmbeddingsToProduct: the \<open>catch\<close> returns the product it was given.\<close>

definition addEmbeddingsToProduct ::
  "jsMath \<Rightarrow> TextProcessor \<Rightarrow> jsobj \<Rightarrow> string \<Rightarrow> lastIndex \<Rightarrow> jsobj \<times> lastIndex" where
  "addEmbeddingsToProduct m tp product format st =
     (case addEmbeddingsToProduct_body m tp product format st of
        (Inl e, st') \<Rightarrow> (product, st')
      | (Inr productWithEmbeddings, st') \<Rightarrow> (productWithEmbeddings, st'))"

section \<open>UniversalConverter\<close>

text \<open>
  constants/processing.js is not among the sources (constants/README.md prints it, with
  3 retry attempts and checkpoints enabled), so the settings that the modelled code
  reads from \<open>CONFIG.PROCESSING\<close> are parameters.
\<close>

record processing =
  RETRY_ATTEMPTS :: nat
  CHECKPOINT_ENABLED :: bool

text \<open>parseWithFallback, on the parsed content of the file.\<close>

definition parseWithFallback :: "jsval \<Rightarrow> error + jsval list" where
  "parseWithFallback jsonData =
     (case jsonData of
        JArr xs \<Rightarrow> Inr xs
      | _ \<Rightarrow>
        bindE (getprop jsonData ''products'') (\<lambda>products.
          if truthy products \<and> isArray products then Inr (elements products)
          else bindE (getprop jsonData ''data'') (\<lambda>data.
            if truthy data \<and> isArray data then Inr (elements data)
            else bindE (getprop jsonData ''items'') (\<lambda>items.
              if truthy items \<and> isArray items then Inr (elements items)
              else Inr [jsonData]))))"

definition detectFormatAndExtractProducts :: "jsval \<Rightarrow> string \<Rightarrow> error + jsval list \<times> string" where
  "detectFormatAndExtractProducts jsonData formatHint =
     (let detectedFormat = (if formatHint \<noteq> ''auto'' then formatHint else ''generic'')
      in case jsonData of
           JArr products \<Rightarrow>
             if formatHint = ''auto'' \<and> 0 < length products then
               bindE (getprop (products ! 0) ''title'') (\<lambda>title.
               bindE (getprop (products ! 0) ''categories'') (\<lambda>categories.
                 Inr (products, if truthy title \<or> truthy categories then ''vertex''
                                else ''generic'')))
             else Inr (products, detectedFormat)
         | _ \<Rightarrow>
           bindE (getprop jsonData ''products'') (\<lambda>products.
             if truthy products \<and> isArray products
             then Inr (elements products, if formatHint = ''auto'' then ''vertex'' else detectedFormat)
             else bindE (getprop jsonData ''data'') (\<lambda>data.
               if truthy data \<and> isArray data then Inr (elements data, detectedFormat)
               else bindE (getprop jsonData ''items'') (\<lambda>items.
                 if truthy items \<and> isArray items then Inr (elements items, detectedFormat)
                 else Inr ([jsonData], detectedFormat)))))"

text \<open>
  One attempt of processBatchWithRetry at converting a product. There is no
  convertBPNProduct, so the format \<open>bpn\<close> throws; so does \<open>null\<close>, on which the
  \<open>catch\<close> block of the converter throws again. Any other value is read through its own
  properties.
\<close>

datatype attempt = Converted jsobj | Dropped | Threw

definition convert_attempt :: "nat \<Rightarrow> string \<Rightarrow> jsval \<Rightarrow> attempt" where
  "convert_attempt now detectedFormat product =
     (if detectedFormat = ''bpn'' \<or> product = JNull \<or> product = JUndefined then Threw
      else case (if detectedFormat = ''vertex'' then convertVertexProduct now (spread product)
                 else convertGenericProduct now (spread product)) of
             None \<Rightarrow> Dropped
           | Some commerceProduct \<Rightarrow> Converted commerceProduct)"

text \<open>
  The state of a run: the \<open>lastIndex\<close> of the shared patterns, and the number of
  conversions attempted so far, which selects the clock reading of the next one.
\<close>

type_synonym run_state = "lastIndex \<times> nat"

text \<open>
  The \<open>while\<close> loop of processBatchWithRetry for one product, with the attempts that
  are left. It yields what the loop pushes on \<open>results\<close>: a product, \<open>null\<close> or nothing.
  After the last attempt the \<open>catch\<close> block reads \<open>product.id\<close>, which throws on
  \<open>null\<close>.
\<close>

fun retry_product ::
  "jsMath \<Rightarrow> TextProcessor \<Rightarrow> (nat \<Rightarrow> nat) \<Rightarrow> string \<Rightarrow> jsval \<Rightarrow> nat \<Rightarrow> run_state
     \<Rightarrow> (error + jsobj option list) \<times> run_state" where
  "retry_product m tp clock detectedFormat product 0 st = (Inr [], st)"
| "retry_product m tp clock detectedFormat product (Suc left) st =
     (case convert_attempt (clock (snd st)) detectedFormat product of
        Converted commerceProduct \<Rightarrow>
          (let (productWithEmbeddings, li) =
                 addEmbeddingsToProduct m tp commerceProduct detectedFormat (fst st)
           in (Inr [Some productWithEmbeddings], (li, Suc (snd st))))
      | Dropped \<Rightarrow> retry_product m tp clock detectedFormat product left (fst st, Suc (snd st))
      | Threw \<Rightarrow>
          if left = 0
          then (if product = JNull \<or> product = JUndefined then Inl TypeError else Inr [None],
                (fst st, Suc (snd st)))
          else retry_product m tp clock detectedFormat product left (fst st, Suc (snd st)))"

fun processBatchWithRetry ::
  "jsMath \<Rightarrow> TextProcessor \<Rightarrow> (nat \<Rightarrow> nat) \<Rightarrow> processing \<Rightarrow> jsval list \<Rightarrow> string \<Rightarrow> run_state
     \<Rightarrow> (error + jsobj option list) \<times> run_state" where
  "processBatchWithRetry m tp clock cfg [] detectedFormat st = (Inr [], st)"
| "processBatchWithRetry m tp clock cfg (product # batch) detectedFormat st =
     (case retry_product m tp clock detectedFormat product (RETRY_ATTEMPTS cfg) st of
        (Inl e, st') \<Rightarrow> (Inl e, st')
      | (Inr pushed, st') \<Rightarrow>
          (case processBatchWithRetry m tp clock cfg batch detectedFormat st' of
             (Inl e, st'') \<Rightarrow> (Inl e, st'')
           | (Inr results, st'') \<Rightarrow> (Inr (pushed @ results), st'')))"

text \<open>
  processAnyJSONFile on the content of the file (\<open>None\<close> when it cannot be read or
  parsed), up to the list of converted products it returns. The products go through
  processBatchWithRetry in input order; the slicing into batches and the shard files
  do not change that list and are left out.
\<close>

definition processAnyJSONFile ::
  "jsMath \<Rightarrow> TextProcessor \<Rightarrow> (nat \<Rightarrow> nat) \<Rightarrow> processing \<Rightarrow> jsval option \<Rightarrow> string \<Rightarrow> run_state
     \<Rightarrow> (error + jsobj list) \<times> run_state" where
  "processAnyJSONFile m tp clock cfg content formatHint st =
     (case content of
        None \<Rightarrow> (Inl TypeError, st)
      | Some jsonData \<Rightarrow>
          (case parseWithFallback jsonData of
             Inl e \<Rightarrow> (Inl e, st)
           | Inr products \<Rightarrow>
               (case detectFormatAndExtractProducts (JObj [(''products'', JArr products)])
                       formatHint of
                  Inl e \<Rightarrow> (Inl e, st)
                | Inr (extracted, detectedFormat) \<Rightarrow>
                    (case processBatchWithRetry m tp clock cfg products detectedFormat st of
                       (Inl e, st') \<Rightarrow> (Inl e, st')
                     | (Inr results, st') \<Rightarrow> (Inr (List.map_filter id results), st')))))"

text \<open>
  What a run of processAllDataFiles meets: the checkpoint file (absent, unreadable, or
  its parsed content), the names of the discovered files (\<open>None\<close> when the data
  directory is missing), for each file whether processFileWithTracking succeeds and
  whether saveCheckpoint wrote the checkpoint file on the way, and whether the combined
  output can be written. The files are independent jobs on a queue; nothing below
  depends on their order.
\<close>

record file_outcome =
  converted :: "jsobj list option"
  checkpoint_saved :: bool

record run_env =
  checkpoint_file :: "jsval option option"
  discovered :: "string list option"
  process_file :: "string \<Rightarrow> file_outcome"
  combined_output_written :: bool

text \<open>\<open>new Set(checkpoint.processedFiles || [])\<close>, inside the \<open>try\<close> of loadCheckpoint.\<close>

definition loadCheckpoint :: "processing \<Rightarrow> run_env \<Rightarrow> jsval list option" where
  "loadCheckpoint cfg env =
     (if \<not> CHECKPOINT_ENABLED cfg then None
      else case checkpoint_file env of
             None \<Rightarrow> None
           | Some None \<Rightarrow> None
           | Some (Some checkpoint) \<Rightarrow>
               (case bindE (getprop checkpoint ''processedFiles'')
                       (\<lambda>processedFiles. spread_iterable (js_or processedFiles (JArr []))) of
                  Inl e \<Rightarrow> None
                | Inr files \<Rightarrow> Some files))"

record run_result =
  completed :: bool
  opened :: "string list"
  failed :: "string list"
  checkpoint_left :: bool

text \<open>
  processAllDataFiles, as far as files and the checkpoint go: whether the run came to
  its end without an exception, the files it handed to processFileWithTracking, those
  of them that failed, and whether a checkpoint file is left behind. A failed file is
  caught and recorded by processFileWithTracking and does not end the run; a missing or
  empty data directory and a failed write of the combined output do, before the
  checkpoint file is cleaned up.
\<close>

definition processAllDataFiles :: "processing \<Rightarrow> run_env \<Rightarrow> run_result" where
  "processAllDataFiles cfg env =
     (let checkpoint = loadCheckpoint cfg env;
          resuming = (checkpoint \<noteq> None);
          processedFiles = (case checkpoint of Some files \<Rightarrow> files | None \<Rightarrow> []);
          jsonFiles = (case discovered env of Some files \<Rightarrow> files | None \<Rightarrow> [])
      in if jsonFiles = []
         then \<lparr>completed = False, opened = [], failed = [],
               checkpoint_left = (checkpoint_file env \<noteq> None)\<rparr>
         else
           let filesToProcess =
                 (if resuming then filter (\<lambda>file. JStr file \<notin> set processedFiles) jsonFiles
                  else jsonFiles);
               outcomes = map (\<lambda>file. (file, process_file env file)) filesToProcess;
               allConvertedProducts =
                 concat (List.map_filter (\<lambda>fo. converted (snd fo)) outcomes);
               checkpoint_exists =
                 (checkpoint_file env \<noteq> None
                  \<or> (CHECKPOINT_ENABLED cfg \<and> list_ex (\<lambda>fo. checkpoint_saved (snd fo)) outcomes));
               written = (allConvertedProducts = [] \<or> combined_output_written env)
           in \<lparr>completed = written,
               opened = filesToProcess,
               failed = map fst (filter (\<lambda>fo. converted (snd fo) = None) outcomes),
               checkpoint_left =
                 (checkpoint_exists \<and> \<not> (written \<and> CHECKPOINT_ENABLED cfg))\<rparr>)"

section \<open>Notions of the specification\<close>

text \<open>
  A text contains a keyword case-insensitively when one of its substrings equals the
  keyword up to case; a category is promotional when it contains a keyword of the
  denylist in this way.
\<close>

definition contains_ci :: "string \<Rightarrow> string \<Rightarrow> bool" where
  "contains_ci s keyword =
     (\<exists>pre mid post. s = pre @ mid @ post \<and> toLowerCase mid = toLowerCase keyword)"

definition promotional :: "string \<Rightarrow> bool" where
  "promotional cat = (\<exists>keyword \<in> set promotionalKeywords. contains_ci cat keyword)"

text \<open>
  The weighted sum of presence indicators of the search readiness score, over a
  reading \<open>has\<close> of "the text is present", and rounding to two decimals.
\<close>

definition weighted_presence :: "(string \<Rightarrow> bool) \<Rightarrow> components \<Rightarrow> bool \<Rightarrow> bool \<Rightarrow> rat" where
  "weighted_presence has c dense sparse =
     (if has (c_title c) then 3 / 10 else 0)
     + (if has (c_categories c) then 1 / 4 else 0)
     + (if has (c_description c) then 1 / 5 else 0)
     + (if dense then 1 / 10 else 0)
     + (if sparse then 1 / 20 else 0)
     + (if has (c_brands c) then 1 / 20 else 0)
     + (if has (c_attributes c) then 1 / 20 else 0)"

definition round2 :: "rat \<Rightarrow> rat" where
  "round2 x = of_int \<lfloor>x * 100 + 1 / 2\<rfloor> / 100"

definition nonempty :: "string \<Rightarrow> bool" where
  "nonempty s = (s \<noteq> [])"

definition nonblank :: "string \<Rightarrow> bool" where
  "nonblank s = (\<exists>c \<in> set s. \<not> is_space c)"

definition sparse_nonempty :: "string list option \<Rightarrow> bool" where
  "sparse_nonempty sparseEmbedding =
     (case sparseEmbedding of Some sparse \<Rightarrow> sparse \<noteq> [] | None \<Rightarrow> False)"

text \<open>At least one dense embedding was generated: some entry of the object holds a vector.\<close>

definition dense_generated :: "(string \<times> number list option) list \<Rightarrow> bool" where
  "dense_generated denseEmbeddings = list_ex (\<lambda>entry. snd entry \<noteq> None) denseEmbeddings"

text \<open>The attribute of a record under a name, when the attributes are an object.\<close>

definition attribute_of :: "jsobj \<Rightarrow> string \<Rightarrow> jsval" where
  "attribute_of r k =
     (case lookup r ''attributes'' of JObj attributes \<Rightarrow> lookup attributes k | _ \<Rightarrow> JUndefined)"

text \<open>The names of the attributes that the enrichment generates.\<close>

definition generated_keys :: "string list" where
  "generated_keys =
     [''dense_embedding'', ''title_embedding'', ''category_embedding'', ''sparse_embedding'',
      ''search_readiness_score'', ''embedding_count'']"

text \<open>
  What a status field says: in stock, out of stock, or nothing the converter recognises;
  and the two searches of the precedence rule, for the first status field that says
  something and for the first quantity field that holds a number.
\<close>

definition status_signal :: "jsval \<Rightarrow> string option" where
  "status_signal v =
     (let s = toLowerCase (toString v)
      in if str_includes s ''stock'' \<or> str_includes s ''available'' \<or> s = ''true'' \<or> s = ''1''
         then Some ''IN_STOCK''
         else if str_includes s ''out'' \<or> s = ''false'' \<or> s = ''0''
         then Some ''OUT_OF_STOCK''
         else None)"

definition first_status_field :: "jsobj \<Rightarrow> string option" where
  "first_status_field p =
     find (\<lambda>f. lookup p f \<noteq> JUndefined \<and> status_signal (lookup p f) \<noteq> None)
       [''availability'', ''status'', ''stock_status'', ''in_stock'', ''available'']"

definition first_quantity_field :: "jsobj \<Rightarrow> string option" where
  "first_quantity_field p =
     find (\<lambda>f. lookup p f \<noteq> JUndefined \<and> \<not> isNaN (lookup p f))
       [''quantity'', ''stock'', ''inventory'', ''qty'']"

section \<open>Sample parameters\<close>

text \<open>
  Stand-ins for the parameters, to run the model on examples: a tokenizer that splits at
  the characters outside \<open>[A-Za-z0-9_]\<close>, as the WordTokenizer of natural does, a
  stemmer that changes nothing, three stop words, and constant \<open>Math\<close> functions. No
  example depends on the stems or on the dense vectors.
\<close>

definition sample_processor :: TextProcessor where
  "sample_processor =
     \<lparr>tokenizer = (\<lambda>s. match_all (rx_plus (OneOf [CWord])) False s),
      stemmer = (\<lambda>s. s),
      stopwords = [''the'', ''and'', ''of'']\<rparr>"

definition sample_Math :: jsMath where
  "sample_Math = \<lparr>Math_sin = (\<lambda>x. 1 / 2), Math_sqrt = (\<lambda>x. 1)\<rparr>"

definition sample_processing :: processing where
  "sample_processing = \<lparr>RETRY_ATTEMPTS = 3, CHECKPOINT_ENABLED = True\<rparr>"

section \<open>Basic facts\<close>

lemma bindE_eq_Inr: "bindE m f = Inr y \<longleftrightarrow> (\<exists>x. m = Inr x \<and> f x = Inr y)"
  by (cases m) (auto simp: bindE_def)

lemma lookup_append:
  "lookup (xs @ ys) k = (if k \<in> fst ` set xs then lookup xs k else lookup ys k)"
proof (cases "map_of xs k")
  case None
  then have "k \<notin> fst ` set xs" by (simp add: map_of_eq_None_iff)
  with None show ?thesis by (simp add: lookup_def map_add_def)
next
  case (Some v)
  then have "k \<in> fst ` set xs" by (metis map_of_eq_None_iff option.distinct(1))
  with Some show ?thesis by (simp add: lookup_def map_add_def)
qed

lemma starts_with_iff: "starts_with s k \<longleftrightarrow> (\<exists>post. s = k @ post)"
  by (induction s k rule: starts_with.induct) auto

lemma str_includes_iff: "str_includes s sub \<longleftrightarrow> (\<exists>pre post. s = pre @ sub @ post)"
proof (induction s)
  case Nil
  then show ?case by auto
next
  case (Cons c cs)
  show ?case
  proof
    assume "str_includes (c # cs) sub"
    then consider "starts_with (c # cs) sub" | "str_includes cs sub" by auto
    then show "\<exists>pre post. c # cs = pre @ sub @ post"
    proof cases
      case 1
      then obtain post where "c # cs = sub @ post" by (auto simp: starts_with_iff)
      then have "c # cs = [] @ sub @ post" by simp
      then show ?thesis by blast
    next
      case 2
      then obtain pre post where "cs = pre @ sub @ post" using Cons.IH by auto
      then have "c # cs = (c # pre) @ sub @ post" by simp
      then show ?thesis by blast
    qed
  next
    assume "\<exists>pre post. c # cs = pre @ sub @ post"
    then obtain pre post where eq: "c # cs = pre @ sub @ post" by auto
    show "str_includes (c # cs) sub"
    proof (cases pre)
      case Nil
      with eq have "starts_with (c # cs) sub" by (auto simp: starts_with_iff)
      then show ?thesis by simp
    next
      case (Cons a pre')
      with eq have "cs = pre' @ sub @ post" by simp
      then have "str_includes cs sub" using Cons.IH by blast
      then show ?thesis by simp
    qed
  qed
qed

lemma contains_ci_code:
  "contains_ci s keyword \<longleftrightarrow> str_includes (toLowerCase s) (toLowerCase keyword)"
proof
  assume "contains_ci s keyword"
  then obtain pre mid post where "s = pre @ mid @ post" "toLowerCase mid = toLowerCase keyword"
    by (auto simp: contains_ci_def)
  then have "toLowerCase s = toLowerCase pre @ toLowerCase keyword @ toLowerCase post"
    by (simp add: toLowerCase_def)
  then show "str_includes (toLowerCase s) (toLowerCase keyword)"
    unfolding str_includes_iff by blast
next
  assume "str_includes (toLowerCase s) (toLowerCase keyword)"
  then have "\<exists>a b. toLowerCase s = a @ (toLowerCase keyword @ b)"
    by (simp only: str_includes_iff)
  then obtain a b where ab: "toLowerCase s = a @ (toLowerCase keyword @ b)"
    by (elim exE)
  then have "\<exists>us vs. s = us @ vs \<and> a = map lower_char us
               \<and> map lower_char keyword @ b = map lower_char vs"
    by (simp only: toLowerCase_def map_eq_append_conv)
  then obtain pre rest where t: "s = pre @ rest"
    and r: "map lower_char keyword @ b = map lower_char rest"
    by (elim exE conjE)
  from r have "\<exists>us vs. rest = us @ vs \<and> map lower_char keyword = map lower_char us
               \<and> b = map lower_char vs"
    by (simp only: append_eq_map_conv)
  then obtain mid post where m: "rest = mid @ post"
    and k: "map lower_char keyword = map lower_char mid"
    by (elim exE conjE)
  from t m have "s = pre @ mid @ post" by simp
  moreover from k have "toLowerCase mid = toLowerCase keyword" by (simp add: toLowerCase_def)
  ultimately show "contains_ci s keyword"
    unfolding contains_ci_def by (intro exI conjI)
qed

section \<open>Normalisation of categories\<close>

lemma promotionalKeywords_lower:
  "keyword \<in> set promotionalKeywords \<Longrightarrow> toLowerCase keyword = keyword"
  by (auto simp: promotionalKeywords_def toLowerCase_def lower_char_def is_upper_def code_def)

lemma promotional_code:
  "list_ex (\<lambda>keyword. str_includes (toLowerCase cat) keyword) promotionalKeywords
     = promotional cat"
proof -
  have "\<And>keyword. keyword \<in> set promotionalKeywords \<Longrightarrow>
          str_includes (toLowerCase cat) keyword = contains_ci cat keyword"
    by (simp add: contains_ci_code promotionalKeywords_lower)
  then show ?thesis
    unfolding promotional_def list_ex_iff by blast
qed

lemma processCategories_filter:
  "processCategories (JArr cats) =
     take MAX_CATEGORIES (filter (\<lambda>c. \<not> promotional c) (map cleanText cats))"
  by (simp add: processCategories_def promotional_code)

lemma convertVertexProduct_Some:
  assumes "convertVertexProduct now p = Some r"
  shows "\<exists>rest. r = vertex_fields now p @ rest"
proof -
  from assms have "convertVertexProduct_body now p = Inr r"
    by (simp add: convertVertexProduct_def split: sum.splits)
  then obtain a b c where "r = vertex_fields now p @ a @ b @ c"
    unfolding convertVertexProduct_body_def bindE_eq_Inr by blast
  then show ?thesis by blast
qed

lemma convertGenericProduct_Some:
  assumes "convertGenericProduct now p = Some r"
  shows "\<exists>rest. r = generic_fields now p @ rest"
proof -
  from assms have "convertGenericProduct_body now p = Inr r"
    by (simp add: convertGenericProduct_def split: sum.splits)
  then obtain a b c where "r = generic_fields now p @ a @ b @ c"
    unfolding convertGenericProduct_body_def bindE_eq_Inr by blast
  then show ?thesis by blast
qed

lemma vertex_fields_keys:
  "fst ` set (vertex_fields now p) =
     {''id'', ''title'', ''categories'', ''description'', ''uri'', ''availability'', ''languageCode''}"
  by (simp add: vertex_fields_def Let_def insert_commute)

lemma generic_fields_keys:
  "fst ` set (generic_fields now p) =
     {''id'', ''title'', ''categories'', ''description'', ''uri'', ''availability'', ''languageCode''}"
  by (simp add: generic_fields_def Let_def insert_commute)

lemma convertVertexProduct_categories:
  assumes "convertVertexProduct now p = Some r"
  shows "lookup r ''categories'' =
           JArr (map JStr (emitted_categories
                   (processCategories (js_or (lookup p ''categories'') (JArr [])))))"
proof -
  from assms obtain rest where "r = vertex_fields now p @ rest"
    using convertVertexProduct_Some by blast
  then show ?thesis
    by (simp add: lookup_append vertex_fields_keys) (simp add: vertex_fields_def lookup_def Let_def)
qed

lemma convertGenericProduct_categories:
  assumes "convertGenericProduct now p = Some r"
  shows "lookup r ''categories'' =
           JArr (map JStr (emitted_categories (processCategories (generic_categories p))))"
proof -
  from assms obtain rest where "r = generic_fields now p @ rest"
    using convertGenericProduct_Some by blast
  then show ?thesis
    by (simp add: lookup_append generic_fields_keys) (simp add: generic_fields_def lookup_def Let_def)
qed

text \<open>
  C8. Normalisation maps every category through cleanText, removes every category whose
  cleaned text contains, ignoring case and as a substring, one of the promotional
  keywords sale, new, clearance, promo, deal, special, limited, and keeps at most
  MAX_CATEGORIES of the survivors; when nothing is left the emitted list is the single
  fallback category Products. Both converters emit exactly this list, so the categories
  of an emitted record are never empty.
\<close>

theorem categories_filtered_truncated_fallback:
  fixes cats :: "jsval list" and now :: nat and p r :: jsobj
  shows "processCategories (JArr cats) =
           take MAX_CATEGORIES (filter (\<lambda>c. \<not> promotional c) (map cleanText cats))
       \<and> length (processCategories (JArr cats)) \<le> 10
       \<and> emitted_categories (processCategories (JArr cats)) \<noteq> []
       \<and> (processCategories (JArr cats) = [] \<longrightarrow>
            emitted_categories (processCategories (JArr cats)) = [''Products''])
       \<and> (processCategories (JArr cats) \<noteq> [] \<longrightarrow>
            emitted_categories (processCategories (JArr cats)) = processCategories (JArr cats))
       \<and> (convertVertexProduct now p = Some r \<longrightarrow>
            (\<exists>cs. lookup r ''categories'' = JArr (map JStr cs) \<and> cs \<noteq> []
               \<and> cs = emitted_categories
                        (processCategories (js_or (lookup p ''categories'') (JArr [])))))
       \<and> (convertGenericProduct now p = Some r \<longrightarrow>
            (\<exists>cs. lookup r ''categories'' = JArr (map JStr cs) \<and> cs \<noteq> []
               \<and> cs = emitted_categories (processCategories (generic_categories p))))"
proof (intro conjI impI)
  show "processCategories (JArr cats) =
          take MAX_CATEGORIES (filter (\<lambda>c. \<not> promotional c) (map cleanText cats))"
    by (rule processCategories_filter)
  show "length (processCategories (JArr cats)) \<le> 10"
    by (simp add: processCategories_filter MAX_CATEGORIES_def)
  show "emitted_categories (processCategories (JArr cats)) \<noteq> []"
    by (simp add: emitted_categories_def)
next
  assume "processCategories (JArr cats) = []"
  then show "emitted_categories (processCategories (JArr cats)) = [''Products'']"
    by (simp add: emitted_categories_def)
next
  assume "processCategories (JArr cats) \<noteq> []"
  then show "emitted_categories (processCategories (JArr cats)) = processCategories (JArr cats)"
    by (simp add: emitted_categories_def)
next
  assume "convertVertexProduct now p = Some r"
  then have "lookup r ''categories'' =
           JArr (map JStr (emitted_categories
                   (processCategories (js_or (lookup p ''categories'') (JArr [])))))"
    by (rule convertVertexProduct_categories)
  moreover have "emitted_categories
                   (processCategories (js_or (lookup p ''categories'') (JArr []))) \<noteq> []"
    by (simp add: emitted_categories_def)
  ultimately show "\<exists>cs. lookup r ''categories'' = JArr (map JStr cs) \<and> cs \<noteq> []
               \<and> cs = emitted_categories
                        (processCategories (js_or (lookup p ''categories'') (JArr [])))"
    by blast
next
  assume "convertGenericProduct now p = Some r"
  then have "lookup r ''categories'' =
           JArr (map JStr (emitted_categories (processCategories (generic_categories p))))"
    by (rule convertGenericProduct_categories)
  moreover have "emitted_categories (processCategories (generic_categories p)) \<noteq> []"
    by (simp add: emitted_categories_def)
  ultimately show "\<exists>cs. lookup r ''categories'' = JArr (map JStr cs) \<and> cs \<noteq> []
               \<and> cs = emitted_categories (processCategories (generic_categories p))"
    by blast
qed

theorem categories_filtered_truncated_fallback_witness:
  "processCategories (JArr [JStr ''Clearance Shirts'']) = []
   \<and> convertVertexProduct 0
      [(''id'', JStr ''p1''), (''title'', JStr ''Red Shirt''),
       (''categories'', JArr [JStr ''Clearance Shirts''])] = Some
      [(''id'', JStr ''p1''), (''title'', JStr ''Red Shirt''),
       (''categories'', JArr [JStr ''Products'']), (''description'', JStr []),
       (''uri'', JStr ''/products/red-shirt-p1''), (''availability'', JStr ''IN_STOCK''),
       (''languageCode'', JStr ''en''), (''attributes'', JObj [])]
   \<and> convertGenericProduct 0
      [(''id'', JStr ''p1''), (''title'', JStr ''Red Shirt''),
       (''categories'', JArr [JStr ''Clearance Shirts''])] = Some
      [(''id'', JStr ''p1''), (''title'', JStr ''Red Shirt''),
       (''categories'', JArr [JStr ''Products'']), (''description'', JStr []),
       (''uri'', JStr ''/products/red-shirt-p1''), (''availability'', JStr ''IN_STOCK''),
       (''languageCode'', JStr ''en''), (''attributes'', JObj [])]
   \<and> emitted_categories (processCategories (JArr [JStr ''Clearance Shirts''])) = [''Products'']
   \<and> (\<exists>cs. lookup
      [(''id'', JStr ''p1''), (''title'', JStr ''Red Shirt''),
       (''categories'', JArr [JStr ''Products'']), (''description'', JStr []),
       (''uri'', JStr ''/products/red-shirt-p1''), (''availability'', JStr ''IN_STOCK''),
       (''languageCode'', JStr ''en''), (''attributes'', JObj [])] ''categories''
         = JArr (map JStr cs) \<and> cs \<noteq> [])"
proof -
  have e: "processCategories (JArr [JStr ''Clearance Shirts'']) = []"
    by code_simp
  have v: "convertVertexProduct 0
      [(''id'', JStr ''p1''), (''title'', JStr ''Red Shirt''),
       (''categories'', JArr [JStr ''Clearance Shirts''])] = Some
      [(''id'', JStr ''p1''), (''title'', JStr ''Red Shirt''),
       (''categories'', JArr [JStr ''Products'']), (''description'', JStr []),
       (''uri'', JStr ''/products/red-shirt-p1''), (''availability'', JStr ''IN_STOCK''),
       (''languageCode'', JStr ''en''), (''attributes'', JObj [])]"
    by code_simp
  have g: "convertGenericProduct 0
      [(''id'', JStr ''p1''), (''title'', JStr ''Red Shirt''),
       (''categories'', JArr [JStr ''Clearance Shirts''])] = Some
      [(''id'', JStr ''p1''), (''title'', JStr ''Red Shirt''),
       (''categories'', JArr [JStr ''Products'']), (''description'', JStr []),
       (''uri'', JStr ''/products/red-shirt-p1''), (''availability'', JStr ''IN_STOCK''),
       (''languageCode'', JStr ''en''), (''attributes'', JObj [])]"
    by code_simp
  note t = categories_filtered_truncated_fallback [of "[JStr ''Clearance Shirts'']" 0
      "[(''id'', JStr ''p1''), (''title'', JStr ''Red Shirt''),
       (''categories'', JArr [JStr ''Clearance Shirts''])]"
      "[(''id'', JStr ''p1''), (''title'', JStr ''Red Shirt''),
       (''categories'', JArr [JStr ''Products'']), (''description'', JStr []),
       (''uri'', JStr ''/products/red-shirt-p1''), (''availability'', JStr ''IN_STOCK''),
       (''languageCode'', JStr ''en''), (''attributes'', JObj [])]"]
  from t e have "emitted_categories (processCategories (JArr [JStr ''Clearance Shirts''])) = [''Products'']"
    by blast
  moreover from t v have "\<exists>cs. lookup
      [(''id'', JStr ''p1''), (''title'', JStr ''Red Shirt''),
       (''categories'', JArr [JStr ''Products'']), (''description'', JStr []),
       (''uri'', JStr ''/products/red-shirt-p1''), (''availability'', JStr ''IN_STOCK''),
       (''languageCode'', JStr ''en''), (''attributes'', JObj [])] ''categories''
         = JArr (map JStr cs) \<and> cs \<noteq> []"
    by blast
  ultimately show ?thesis using e v g by blast
qed

section \<open>Search readiness score\<close>

lemma trim_nonblank: "trim s \<noteq> [] \<longleftrightarrow> nonblank s"
proof -
  have a: "\<And>xs. dropWhile is_space xs \<noteq> [] \<longleftrightarrow> (\<exists>c \<in> set xs. \<not> is_space c)"
    by (simp add: dropWhile_eq_Nil_conv)
  have "trim s \<noteq> [] \<longleftrightarrow> dropWhile is_space (rev (dropWhile is_space s)) \<noteq> []"
    by (simp only: trim_def rev_is_Nil_conv)
  also have "\<dots> \<longleftrightarrow> (\<exists>c \<in> set (rev (dropWhile is_space s)). \<not> is_space c)"
    by (rule a)
  also have "\<dots> \<longleftrightarrow> (\<exists>c \<in> set (dropWhile is_space s). \<not> is_space c)"
    by (simp only: set_rev)
  also have "\<dots> \<longleftrightarrow> dropWhile is_space s \<noteq> []"
  proof
    assume "\<exists>c \<in> set (dropWhile is_space s). \<not> is_space c"
    then show "dropWhile is_space s \<noteq> []" by (auto dest: set_dropWhileD)
  next
    assume ne: "dropWhile is_space s \<noteq> []"
    then have "\<not> is_space (hd (dropWhile is_space s))" by (rule hd_dropWhile)
    moreover from ne have "hd (dropWhile is_space s) \<in> set (dropWhile is_space s)" by simp
    ultimately show "\<exists>c \<in> set (dropWhile is_space s). \<not> is_space c" by blast
  qed
  also have "\<dots> \<longleftrightarrow> nonblank s"
    unfolding nonblank_def by (rule a)
  finally show ?thesis .
qed

lemma score_sum:
  "calculateSearchReadinessScore c d s =
     toFixed_num 2 (weighted_presence nonblank c (d \<noteq> []) (sparse_nonempty s))"
  by (cases s) (simp_all add: calculateSearchReadinessScore_def weighted_presence_def Let_def
        trim_nonblank sparse_nonempty_def)

lemma weighted_presence_twentieths:
  "\<exists>k::nat. k \<le> 20 \<and> weighted_presence has c dense sparse = of_nat k / 20"
proof -
  define a where "a = (if has (c_title c) then 6 else 0::nat)"
  define b where "b = (if has (c_categories c) then 5 else 0::nat)"
  define e where "e = (if has (c_description c) then 4 else 0::nat)"
  define f where "f = (if dense then 2 else 0::nat)"
  define g where "g = (if sparse then 1 else 0::nat)"
  define h where "h = (if has (c_brands c) then 1 else 0::nat)"
  define i where "i = (if has (c_attributes c) then 1 else 0::nat)"
  have "a + b + e + f + g + h + i \<le> 20"
    by (simp add: a_def b_def e_def f_def g_def h_def i_def)
  moreover have "weighted_presence has c dense sparse = of_nat (a + b + e + f + g + h + i) / 20"
    by (simp add: weighted_presence_def a_def b_def e_def f_def g_def h_def i_def)
  ultimately show ?thesis by blast
qed

lemma floor_half: "\<lfloor>(of_int n :: rat) + 1 / 2\<rfloor> = n"
  by (rule floor_unique) simp_all

lemma toFixed_num_twentieths: "toFixed_num 2 (of_nat k / 20) = of_nat k / 20"
proof -
  have "(of_nat k / 20 :: rat) * 10\<^sup>2 + 1 / 2 = of_int (int (5 * k)) + 1 / 2"
    by (simp add: power2_eq_square)
  then have "\<lfloor>\<bar>of_nat k / 20 :: rat\<bar> * 10\<^sup>2 + 1 / 2\<rfloor> = int (5 * k)"
    by (simp only: floor_half abs_of_nonneg[OF divide_nonneg_pos[OF of_nat_0_le_iff]])
  then show ?thesis
    by (simp add: toFixed_num_def toFixed_int_def power2_eq_square)
qed

lemma round2_twentieths: "round2 (of_nat k / 20) = of_nat k / 20"
proof -
  have "(of_nat k / 20 :: rat) * 100 + 1 / 2 = of_int (int (5 * k)) + 1 / 2"
    by simp
  then have "\<lfloor>(of_nat k / 20 :: rat) * 100 + 1 / 2\<rfloor> = int (5 * k)"
    by (simp only: floor_half)
  then show ?thesis
    by (simp add: round2_def)
qed

lemma calculateSearchReadinessScore_weighted_sum:
  "calculateSearchReadinessScore c d s =
     round2 (weighted_presence nonblank c (d \<noteq> []) (sparse_nonempty s))
   \<and> calculateSearchReadinessScore c d s =
       weighted_presence nonblank c (d \<noteq> []) (sparse_nonempty s)
   \<and> 0 \<le> calculateSearchReadinessScore c d s
   \<and> calculateSearchReadinessScore c d s \<le> 1"
proof -
  obtain k :: nat where k: "k \<le> 20"
    and w: "weighted_presence nonblank c (d \<noteq> []) (sparse_nonempty s) = of_nat k / 20"
    using weighted_presence_twentieths by blast
  have eq: "calculateSearchReadinessScore c d s = of_nat k / 20"
    by (simp only: score_sum w toFixed_num_twentieths)
  have "(of_nat k / 20 :: rat) \<le> 1" using k by simp
  moreover have "0 \<le> (of_nat k / 20 :: rat)" by simp
  ultimately show ?thesis
    by (simp only: eq w round2_twentieths)
qed

end
